theory Spec2Isabelle
  imports Complex_Main "HOL-Library.Sublist"
begin

section \<open>Python and TensorFlow values used by the StackGAN scripts\<close>

text \<open>
  The development embeds \<^verbatim>\<open>train.py\<close> (the training script, everything inside
  \<^verbatim>\<open>main\<close>) and \<^verbatim>\<open>gan_estimator_impl.py\<close> (the estimator's model function).
  Exceptions are values of \<open>error\<close>; a computation that may raise returns
  \<open>error + 'a\<close> with \<open>Inl\<close> for the exception.
\<close>

datatype error = ValueError | TypeError | IndexError | NameError | AssertionError

text \<open>
  A TensorFlow static shape: \<open>None\<close> is a shape of unknown rank, a dimension
  \<open>None\<close> is an unknown dimension. \<open>is_compatible_with\<close> follows
  \<^verbatim>\<open>TensorShape.is_compatible_with\<close>: equal rank and pairwise compatible dimensions
  when both ranks are known, and true otherwise.
\<close>

type_synonym dimension = "nat option"
type_synonym tensor_shape = "dimension list option"

fun dim_compatible :: "dimension \<Rightarrow> dimension \<Rightarrow> bool" where
  "dim_compatible None _ = True"
| "dim_compatible _ None = True"
| "dim_compatible (Some a) (Some b) = (a = b)"

fun is_compatible_with :: "tensor_shape \<Rightarrow> tensor_shape \<Rightarrow> bool" where
  "is_compatible_with (Some xs) (Some ys) =
     (length xs = length ys \<and> list_all (\<lambda>(x, y). dim_compatible x y) (zip xs ys))"
| "is_compatible_with _ _ = True"

text \<open>
  A tensor is a node of the graph: the name of the operation that produces it and its
  static shape. The numbers it holds at run time are not part of graph construction.
\<close>

datatype tensor = Tensor (tensor_name: string) (shape: tensor_shape)

text \<open>
  Python's \<^verbatim>\<open>str\<close> on a non-negative integer: its decimal digits, most significant
  first.
\<close>

definition digit_char :: "nat \<Rightarrow> char" where
  "digit_char d = char_of (48 + d)"

fun str :: "nat \<Rightarrow> string" where
  "str n = (if n < 10 then [digit_char n] else str (n div 10) @ [digit_char (n mod 10)])"

declare str.simps [simp del]

text \<open>
  The graph's collection of trainable variables, as the list of their full names in
  creation order. A variable created inside variable scope \<open>sc\<close> under the local
  name \<open>n\<close> has the full name \<open>sc/n\<close>; with \<^verbatim>\<open>reuse=tf.AUTO_REUSE\<close> a second
  request for the same full name returns the existing variable. A scope opened inside
  another one is named \<open>outer/inner\<close>, and at top level just \<open>inner\<close>.
  \<^verbatim>\<open>tf.trainable_variables(scope)\<close> returns a fresh list of the variables whose name
  the scope string matches at its beginning (\<^verbatim>\<open>re.match\<close>; the scope names used here
  contain no regular-expression operator, so this is the prefix test).
\<close>

type_synonym graph = "string list"

definition scope_join :: "string \<Rightarrow> string \<Rightarrow> string" where
  "scope_join outer inner = (if outer = [] then inner else outer @ ''/'' @ inner)"

definition get_variable :: "string \<Rightarrow> graph \<Rightarrow> string \<Rightarrow> graph" where
  "get_variable sc g n = (if scope_join sc n \<in> set g then g else g @ [scope_join sc n])"

definition get_variables :: "string \<Rightarrow> string list \<Rightarrow> graph \<Rightarrow> graph" where
  "get_variables sc ns g = foldl (get_variable sc) g ns"

definition trainable_variables :: "string \<Rightarrow> graph \<Rightarrow> string list" where
  "trainable_variables sc g = filter (prefix sc) g"

section \<open>The stage model of \<^verbatim>\<open>namedtuples.py\<close> and the network functions\<close>

text \<open>
  \<^verbatim>\<open>generator_inputs\<close> after \<^verbatim>\<open>_convert_tensor_or_l_or_d\<close>: one tensor, or a list of
  tensors.
\<close>

datatype gen_inputs = OneTensor tensor | TensorList "tensor list"

text \<open>
  The network functions are supplied by the caller. A generator call takes the inputs,
  \<^verbatim>\<open>final_size\<close> and \<^verbatim>\<open>apply_batch_norm\<close>, and returns the generated data, the hidden
  code and the local names of the trainable variables it asks for in the current
  variable scope; a discriminator call takes the data and \<^verbatim>\<open>apply_batch_norm\<close> (its
  conditioning argument is always \<^verbatim>\<open>None\<close> in \<^verbatim>\<open>train.py\<close>) and returns its output
  and the local variable names.
\<close>

type_synonym generator_fn = "gen_inputs \<Rightarrow> nat \<Rightarrow> bool \<Rightarrow> (tensor \<times> tensor) \<times> string list"
type_synonym discriminator_fn = "tensor \<Rightarrow> bool \<Rightarrow> tensor \<times> string list"

text \<open>
  \<^verbatim>\<open>StackGANModel\<close>: the fields of \<^verbatim>\<open>tfgan.GANModel\<close> followed by
  \<^verbatim>\<open>generator_hidden_code\<close> and \<^verbatim>\<open>stage\<close>. Scopes are represented by their names.
\<close>

record stack_gan_model =
  generator_inputs :: gen_inputs
  generated_data :: tensor
  generator_variables :: "string list"
  generator_scope :: string
  generator_fn :: generator_fn
  real_data :: tensor
  discriminator_real_outputs :: tensor
  discriminator_gen_outputs :: tensor
  discriminator_variables :: "string list"
  discriminator_scope :: string
  discriminator_fn :: discriminator_fn
  generator_hidden_code :: tensor
  stage :: nat

section \<open>Building the stack in \<^verbatim>\<open>train.py\<close>\<close>

text \<open>
  \<^verbatim>\<open>_get_or_create_gen_super_scope\<close>: a missing super scope is created as the
  top-level variable scope \<^verbatim>\<open>Generator\<close>; an existing one is returned as it is.
\<close>

definition get_or_create_gen_super_scope :: "string option \<Rightarrow> string" where
  "get_or_create_gen_super_scope super_scope =
     (case super_scope of None \<Rightarrow> ''Generator'' | Some sc \<Rightarrow> sc)"

text \<open>The resolution passed to the generator as \<^verbatim>\<open>final_size\<close> at line 90.\<close>

definition train_final_size :: "nat \<Rightarrow> nat" where
  "train_final_size stage_no = 2 ^ (5 + stage_no)"

text \<open>
  \<^verbatim>\<open>gan_model\<close> of \<^verbatim>\<open>train.py\<close>. The generator runs in the scope
  \<^verbatim>\<open>Generator_stage_<stage>\<close> nested in the super scope, the discriminator runs twice
  in \<^verbatim>\<open>Discriminator_stage_<stage>\<close> (on the generated and on the real data, sharing
  its variables), then the shapes are compared when \<^verbatim>\<open>check_shapes\<close> is set, and the
  variable lists are read from the graph as it is at that moment.
  \<open>abn\<close> is \<^verbatim>\<open>FLAGS.apply_batch_norm\<close>; the last argument is the graph before the call.
\<close>

definition gan_model ::
  "generator_fn \<Rightarrow> discriminator_fn \<Rightarrow> tensor \<Rightarrow> (unit \<Rightarrow> error + gen_inputs) \<Rightarrow> nat \<Rightarrow>
   string option \<Rightarrow> bool \<Rightarrow> bool \<Rightarrow> graph \<Rightarrow> error + (stack_gan_model \<times> graph)" where
  "gan_model gen_fn dis_fn real_tensor generator_input_fn stage_no generator_super_scope
     check_shapes abn g =
    (let current_stage_generator_scope = ''Generator_stage_'' @ str stage_no;
         current_stage_discriminator_scope = ''Discriminator_stage_'' @ str stage_no;
         super_scope = get_or_create_gen_super_scope generator_super_scope
     in case generator_input_fn () of
          Inl e \<Rightarrow> Inl e
        | Inr inputs \<Rightarrow>
           (let ((gen_data, hidden_code), gen_locals) =
                   gen_fn inputs (train_final_size stage_no) abn;
                g1 = get_variables (scope_join super_scope current_stage_generator_scope)
                       gen_locals g;
                dis_scope = current_stage_discriminator_scope;
                (dis_gen_outputs, dis_locals_gen) = dis_fn gen_data abn;
                g2 = get_variables dis_scope dis_locals_gen g1;
                (dis_real_outputs, dis_locals_real) = dis_fn real_tensor abn;
                g3 = get_variables dis_scope dis_locals_real g2
            in if check_shapes \<and> \<not> is_compatible_with (shape gen_data) (shape real_tensor)
               then Inl ValueError
               else Inr (\<lparr> generator_inputs = inputs,
                           generated_data = gen_data,
                           generator_variables = trainable_variables super_scope g3,
                           generator_scope = super_scope,
                           generator_fn = gen_fn,
                           real_data = real_tensor,
                           discriminator_real_outputs = dis_real_outputs,
                           discriminator_gen_outputs = dis_gen_outputs,
                           discriminator_variables = trainable_variables dis_scope g3,
                           discriminator_scope = dis_scope,
                           discriminator_fn = dis_fn,
                           generator_hidden_code = hidden_code,
                           stage = stage_no \<rparr>, g3)))"

text \<open>
  Python indexing as \<^verbatim>\<open>main\<close> uses it on the list of models built so far:
  \<^verbatim>\<open>gan_models[i - 1]\<close> for \<open>i > 0\<close> and \<^verbatim>\<open>gan_models[-1]\<close>. Both raise
  \<^verbatim>\<open>IndexError\<close> outside the list.
\<close>

definition py_nth :: "'a list \<Rightarrow> nat \<Rightarrow> error + 'a" where
  "py_nth xs k = (if k < length xs then Inr (xs ! k) else Inl IndexError)"

definition py_last :: "'a list \<Rightarrow> error + 'a" where
  "py_last xs = (case xs of [] \<Rightarrow> Inl IndexError | _ \<Rightarrow> Inr (last xs))"

text \<open>
  \<^verbatim>\<open>_get_generator_input_for_stage\<close> of \<^verbatim>\<open>train.py\<close>: the closure \<^verbatim>\<open>get_input\<close>. It
  reads the list \<^verbatim>\<open>gan_models\<close> of \<^verbatim>\<open>main\<close> when it is called, which happens inside
  \<^verbatim>\<open>gan_model\<close> during iteration \<open>i\<close>, before the new model is appended; the list it
  then sees is the first argument here.
\<close>

definition get_generator_input_for_stage ::
  "stack_gan_model list \<Rightarrow> nat \<Rightarrow> tensor \<Rightarrow> unit \<Rightarrow> error + gen_inputs" where
  "get_generator_input_for_stage gan_models i noise = (\<lambda>_.
     if i \<noteq> 0
     then (case py_nth gan_models (i - 1) of
             Inl e \<Rightarrow> Inl e
           | Inr m \<Rightarrow> Inr (TensorList [generator_hidden_code m, noise]))
     else Inr (OneTensor noise))"

text \<open>
  \<^verbatim>\<open>_get_real_data_for_stage\<close>: the training images resized to the stage's resolution
  \<open>2 ^ (5 + i)\<close>, with the static shape set to
  \<^verbatim>\<open>[batch_size, resolution, resolution, 3]\<close>.
\<close>

definition get_real_data_for_stage :: "nat \<Rightarrow> nat \<Rightarrow> tensor" where
  "get_real_data_for_stage batch_size i =
     (let resolution = 2 ^ (5 + i)
      in Tensor (''resize_images_'' @ str i)
           (Some [Some batch_size, Some resolution, Some resolution, Some 3]))"

text \<open>
  The loop of \<^verbatim>\<open>main\<close> over \<^verbatim>\<open>range(FLAGS.stack_depth)\<close>, as a recursion over the stage
  numbers still to build; \<open>ms\<close> is \<^verbatim>\<open>gan_models\<close> and \<open>g\<close> the graph. The network
  functions and the real data of each stage are parameters; \<^verbatim>\<open>check_shapes\<close> is not
  passed by \<^verbatim>\<open>main\<close> and so has its default, \<^verbatim>\<open>True\<close>. An exception leaves the loop.
\<close>

fun main_loop ::
  "generator_fn \<Rightarrow> discriminator_fn \<Rightarrow> (nat \<Rightarrow> tensor) \<Rightarrow> tensor \<Rightarrow> bool \<Rightarrow> nat list \<Rightarrow>
   stack_gan_model list \<Rightarrow> graph \<Rightarrow> error + (stack_gan_model list \<times> graph)" where
  "main_loop gen_fn dis_fn real_for noise abn [] ms g = Inr (ms, g)"
| "main_loop gen_fn dis_fn real_for noise abn (i # rest) ms g =
     (case (if i > 0
            then (case py_last ms of Inl e \<Rightarrow> Inl e | Inr m \<Rightarrow> Inr (Some (generator_scope m)))
            else Inr None) of
        Inl e \<Rightarrow> Inl e
      | Inr super_scope \<Rightarrow>
         (case gan_model gen_fn dis_fn (real_for i)
                 (get_generator_input_for_stage ms i noise) i super_scope True abn g of
            Inl e \<Rightarrow> Inl e
          | Inr (current_model, g') \<Rightarrow>
              main_loop gen_fn dis_fn real_for noise abn rest (ms @ [current_model]) g'))"

text \<open>
  The stack built by \<^verbatim>\<open>main\<close> for \<^verbatim>\<open>FLAGS.stack_depth = depth\<close>, starting from an empty
  list of models and a graph without trainable variables.
\<close>

definition main_gan_models ::
  "generator_fn \<Rightarrow> discriminator_fn \<Rightarrow> (nat \<Rightarrow> tensor) \<Rightarrow> tensor \<Rightarrow> bool \<Rightarrow> nat \<Rightarrow>
   error + (stack_gan_model list \<times> graph)" where
  "main_gan_models gen_fn dis_fn real_for noise abn depth =
     main_loop gen_fn dis_fn real_for noise abn [0..<depth] [] []"

section \<open>The estimator's model function in \<^verbatim>\<open>gan_estimator_impl.py\<close>\<close>

datatype mode = TRAIN | EVAL | PREDICT

text \<open>
  The estimator's generator receives the list \<^verbatim>\<open>[is_init_stage, noise, conditioning]\<close>.
  A network function that has a parameter \<^verbatim>\<open>mode\<close> is given the estimator's mode
  with \<^verbatim>\<open>functools.partial\<close>; one without it is a function that ignores that argument.
  The discriminator function is only handed on, so its type is left open.
\<close>

datatype est_inputs = EstInputs bool "tensor list"

type_synonym est_generator_fn = "est_inputs \<Rightarrow> nat \<Rightarrow> bool \<Rightarrow> (tensor \<times> tensor) \<times> string list"

text \<open>
  The \<^verbatim>\<open>StackGANModel\<close> tuple of the estimator, with the fields that the constructor
  call in \<^verbatim>\<open>_make_prediction_gan_model\<close> names. Fields that the prediction model sets
  to \<^verbatim>\<open>None\<close> are options.
\<close>

record 'd est_gan_model =
  generator_inputs_est :: est_inputs
  generated_data_est :: tensor
  generator_variables_est :: "string list"
  generator_scope_est :: string
  generator_fn_est :: est_generator_fn
  generator_hidden_code_est :: tensor
  stage_est :: nat
  real_data_est :: "tensor option"
  discriminator_real_outputs_est :: "tensor option"
  discriminator_gen_outputs_est :: "tensor option"
  discriminator_variables_est :: "string list option"
  discriminator_scope_est :: "string option"
  discriminator_fn_est :: "'d option"
  disc_real_outputs_uncond_est :: "tensor option"
  disc_gen_outputs_uncond_est :: "tensor option"
  mu_est :: tensor
  logvar_est :: tensor

text \<open>
  \<^verbatim>\<open>_get_generator_input_for_stage\<close> of the estimator returns the closure
  \<^verbatim>\<open>get_input\<close>, it does not call it. \<open>input_value\<close> holds what the assignment
  \<^verbatim>\<open>is_init_stage, noise, conditioning = ...\<close> may be given: unpacking a triple binds
  the three names, unpacking a function object raises \<^verbatim>\<open>TypeError\<close>.
\<close>

datatype input_value =
    Closure "unit \<Rightarrow> error + (bool \<times> tensor \<times> tensor)"
  | Triple bool tensor tensor

fun unpack3 :: "input_value \<Rightarrow> error + (bool \<times> tensor \<times> tensor)" where
  "unpack3 (Triple a b c) = Inr (a, b, c)"
| "unpack3 (Closure f) = Inl TypeError"

text \<open>
  \<^verbatim>\<open>get_input\<close>: the first stage takes the noise sample, a later stage the hidden code
  of the model before it in \<^verbatim>\<open>models\<close>; both come with the conditioning.
\<close>

definition get_input ::
  "'d est_gan_model list \<Rightarrow> nat \<Rightarrow> tensor \<Rightarrow> tensor \<Rightarrow> unit \<Rightarrow> error + (bool \<times> tensor \<times> tensor)" where
  "get_input models stage_no noise_sample conditioning = (\<lambda>_.
     let is_init_stage = (stage_no = 0)
     in case (if is_init_stage then Inr noise_sample
              else (case py_nth models (stage_no - 1) of
                      Inl e \<Rightarrow> Inl e
                    | Inr m \<Rightarrow> Inr (generator_hidden_code_est m))) of
          Inl e \<Rightarrow> Inl e
        | Inr noise \<Rightarrow> Inr (is_init_stage, noise, conditioning))"

definition get_generator_input_for_stage_est ::
  "'d est_gan_model list \<Rightarrow> nat \<Rightarrow> tensor \<Rightarrow> tensor \<Rightarrow> input_value" where
  "get_generator_input_for_stage_est models stage_no noise_sample conditioning =
     Closure (get_input models stage_no noise_sample conditioning)"

text \<open>\<^verbatim>\<open>random_ops.random_normal([batch_size, noise_dim])\<close>.\<close>

definition random_normal :: "nat \<Rightarrow> nat \<Rightarrow> tensor" where
  "random_normal batch_size noise_dim =
     Tensor ''random_normal'' (Some [Some batch_size, Some noise_dim])"

text \<open>The resolution passed to the generator as \<^verbatim>\<open>final_size\<close> at line 457.\<close>

definition prediction_final_size :: "nat \<Rightarrow> nat" where
  "prediction_final_size stage_no = 2 ^ (6 + stage_no)"

text \<open>
  The loop of \<^verbatim>\<open>_make_prediction_gan_model\<close>. The name \<^verbatim>\<open>noise\<close> is assigned by the
  unpacking in every iteration, so it is part of the loop state, with the list of models
  and the graph. Every model is given \<^verbatim>\<open>stage=stack_depth\<close> and no discriminator field.
\<close>

fun make_prediction_loop ::
  "est_generator_fn \<Rightarrow> nat \<Rightarrow> bool \<Rightarrow> tensor \<Rightarrow> tensor \<Rightarrow> tensor \<Rightarrow> nat list \<Rightarrow> tensor \<Rightarrow>
   'd est_gan_model list \<Rightarrow> graph \<Rightarrow> error + ('d est_gan_model list \<times> graph)" where
  "make_prediction_loop gen_fn stack_depth abn augmented_conditioning mu logvar []
     noise gan_models g = Inr (gan_models, g)"
| "make_prediction_loop gen_fn stack_depth abn augmented_conditioning mu logvar (stage_no # rest)
     noise gan_models g =
     (case (if stage_no > 0
            then (case py_last gan_models of
                    Inl e \<Rightarrow> Inl e
                  | Inr m \<Rightarrow> Inr (Some (generator_scope_est m)))
            else Inr None) of
        Inl e \<Rightarrow> Inl e
      | Inr super_scope \<Rightarrow>
         (case unpack3 (get_generator_input_for_stage_est gan_models stage_no noise
                          augmented_conditioning) of
            Inl e \<Rightarrow> Inl e
          | Inr (is_init_stage, noise', conditioning) \<Rightarrow>
             (let generator_super_scope = get_or_create_gen_super_scope super_scope;
                  inputs = EstInputs is_init_stage [noise', conditioning];
                  ((gen_data, hidden_code), gen_locals) =
                     gen_fn inputs (prediction_final_size stage_no) abn;
                  g' = get_variables
                         (scope_join generator_super_scope (''Generator_stage_'' @ str stage_no))
                         gen_locals g;
                  current_model =
                    \<lparr> generator_inputs_est = inputs,
                      generated_data_est = gen_data,
                      generator_variables_est = trainable_variables generator_super_scope g',
                      generator_scope_est = generator_super_scope,
                      generator_fn_est = gen_fn,
                      generator_hidden_code_est = hidden_code,
                      stage_est = stack_depth,
                      real_data_est = None,
                      discriminator_real_outputs_est = None,
                      discriminator_gen_outputs_est = None,
                      discriminator_variables_est = None,
                      discriminator_scope_est = None,
                      discriminator_fn_est = None,
                      disc_real_outputs_uncond_est = None,
                      disc_gen_outputs_uncond_est = None,
                      mu_est = mu,
                      logvar_est = logvar \<rparr>
              in make_prediction_loop gen_fn stack_depth abn augmented_conditioning mu logvar
                   rest noise' (gan_models @ [current_model]) g')))"

text \<open>
  \<^verbatim>\<open>_make_prediction_gan_model\<close>. \<open>augment\<close> is \<^verbatim>\<open>networks.augment\<close>, the
  conditioning augmentation, which \<^verbatim>\<open>networks.py\<close> does not define; it is a parameter
  that returns the augmented conditioning, \<open>mu\<close> and \<open>logvar\<close>. The result is
  \<^verbatim>\<open>gan_models[-1]\<close>.
\<close>

definition make_prediction_gan_model ::
  "(tensor \<Rightarrow> tensor \<times> tensor \<times> tensor) \<Rightarrow> nat \<Rightarrow> nat \<Rightarrow> nat \<Rightarrow> (mode \<Rightarrow> est_generator_fn) \<Rightarrow>
   tensor \<Rightarrow> bool \<Rightarrow> graph \<Rightarrow> error + ('d est_gan_model \<times> graph)" where
  "make_prediction_gan_model augment stack_depth batch_size noise_dim generator_fn0
     text_embedding abn g =
     (let gen_fn = generator_fn0 PREDICT;
          (augmented_conditioning, mu, logvar) = augment text_embedding;
          noise = random_normal batch_size noise_dim
      in case make_prediction_loop gen_fn stack_depth abn augmented_conditioning mu logvar
                [0..<stack_depth] noise [] g of
           Inl e \<Rightarrow> Inl e
         | Inr (gan_models, g') \<Rightarrow>
            (case py_last gan_models of Inl e \<Rightarrow> Inl e | Inr m \<Rightarrow> Inr (m, g')))"

text \<open>
  The real data handed to the estimator as \<^verbatim>\<open>labels\<close>: one tensor (what the data set
  yields when the stack has one stage) or a list of tensors, one per stage.
  \<^verbatim>\<open>discriminator_inputs[stage]\<close> on a list is Python indexing; on a tensor it is a
  slice along the first axis, which fails at graph construction when the tensor is a
  scalar or the index is outside a known first dimension; on \<^verbatim>\<open>None\<close> it raises
  \<^verbatim>\<open>TypeError\<close>.
\<close>

datatype labels = OneLabel tensor | LabelList "tensor list"

definition tensor_getitem :: "tensor \<Rightarrow> nat \<Rightarrow> error + tensor" where
  "tensor_getitem t k =
     (case shape t of
        None \<Rightarrow> Inr (Tensor (tensor_name t @ ''/strided_slice_'' @ str k) None)
      | Some [] \<Rightarrow> Inl ValueError
      | Some (d # ds) \<Rightarrow>
          (if (case d of None \<Rightarrow> True | Some n \<Rightarrow> k < n)
           then Inr (Tensor (tensor_name t @ ''/strided_slice_'' @ str k) (Some ds))
           else Inl ValueError))"

definition labels_getitem :: "labels option \<Rightarrow> nat \<Rightarrow> error + tensor" where
  "labels_getitem discriminator_inputs k =
     (case discriminator_inputs of
        None \<Rightarrow> Inl TypeError
      | Some (OneLabel t) \<Rightarrow> tensor_getitem t k
      | Some (LabelList ts) \<Rightarrow> py_nth ts k)"

text \<open>
  The keyword arguments that \<^verbatim>\<open>_make_gan_models\<close> builds for each stage. The function
  they are passed to, \<^verbatim>\<open>tfstackgan.python.train.gan_model\<close>, is not among the sources;
  it is the parameter \<open>stage_builder\<close> below, which takes the two network functions, the
  keyword arguments and the graph.
\<close>

record gan_model_kwargs =
  discriminator_inputs_kw :: "labels option \<times> tensor"
  generator_inputs_kw :: input_value
  stage_kw :: nat
  generator_super_scope_kw :: "string option"
  mu_kw :: tensor
  logvar_kw :: tensor
  apply_batch_norm_kw :: bool
  check_shapes_kw :: bool

definition stage_kwargs ::
  "nat \<Rightarrow> labels option \<Rightarrow> tensor \<Rightarrow> tensor \<Rightarrow> tensor \<Rightarrow> tensor \<Rightarrow> bool \<Rightarrow>
   'd est_gan_model list \<Rightarrow> nat \<Rightarrow> error + gan_model_kwargs" where
  "stage_kwargs stack_depth discriminator_inputs noise augmented_conditioning mu logvar abn
     gan_models stage_no =
     (case (if stack_depth = 1 then Inr (discriminator_inputs, mu)
            else (case labels_getitem discriminator_inputs stage_no of
                    Inl e \<Rightarrow> Inl e
                  | Inr t \<Rightarrow> Inr (Some (OneLabel t), mu))) of
        Inl e \<Rightarrow> Inl e
      | Inr dis_in \<Rightarrow>
         (case (if stage_no > 0
                then (case py_last gan_models of
                        Inl e \<Rightarrow> Inl e
                      | Inr m \<Rightarrow> Inr (Some (generator_scope_est m)))
                else Inr None) of
            Inl e \<Rightarrow> Inl e
          | Inr super_scope \<Rightarrow>
              Inr \<lparr> discriminator_inputs_kw = dis_in,
                    generator_inputs_kw =
                      get_generator_input_for_stage_est gan_models stage_no noise
                        augmented_conditioning,
                    stage_kw = stage_no,
                    generator_super_scope_kw = super_scope,
                    mu_kw = mu,
                    logvar_kw = logvar,
                    apply_batch_norm_kw = abn,
                    check_shapes_kw = False \<rparr>))"

text \<open>
  The loop of \<^verbatim>\<open>_make_gan_models\<close>. The summaries added after each stage do not change
  the models and are left out.
\<close>

fun make_gan_models_loop ::
  "(est_generator_fn \<Rightarrow> 'd \<Rightarrow> gan_model_kwargs \<Rightarrow> graph \<Rightarrow> error + ('d est_gan_model \<times> graph)) \<Rightarrow>
   est_generator_fn \<Rightarrow> 'd \<Rightarrow> nat \<Rightarrow> labels option \<Rightarrow> tensor \<Rightarrow> tensor \<Rightarrow> tensor \<Rightarrow> tensor \<Rightarrow>
   bool \<Rightarrow> nat list \<Rightarrow> 'd est_gan_model list \<Rightarrow> graph \<Rightarrow>
   error + ('d est_gan_model list \<times> graph)" where
  "make_gan_models_loop stage_builder gen_fn dis_fn stack_depth discriminator_inputs noise
     augmented_conditioning mu logvar abn [] gan_models g = Inr (gan_models, g)"
| "make_gan_models_loop stage_builder gen_fn dis_fn stack_depth discriminator_inputs noise
     augmented_conditioning mu logvar abn (stage_no # rest) gan_models g =
     (case stage_kwargs stack_depth discriminator_inputs noise augmented_conditioning mu logvar
             abn gan_models stage_no of
        Inl e \<Rightarrow> Inl e
      | Inr kwargs \<Rightarrow>
         (case stage_builder gen_fn dis_fn kwargs g of
            Inl e \<Rightarrow> Inl e
          | Inr (current_model, g') \<Rightarrow>
              make_gan_models_loop stage_builder gen_fn dis_fn stack_depth discriminator_inputs
                noise augmented_conditioning mu logvar abn rest
                (gan_models @ [current_model]) g'))"

definition make_gan_models ::
  "(est_generator_fn \<Rightarrow> 'd \<Rightarrow> gan_model_kwargs \<Rightarrow> graph \<Rightarrow> error + ('d est_gan_model \<times> graph)) \<Rightarrow>
   (tensor \<Rightarrow> tensor \<times> tensor \<times> tensor) \<Rightarrow> nat \<Rightarrow> nat \<Rightarrow> nat \<Rightarrow> (mode \<Rightarrow> est_generator_fn) \<Rightarrow>
   (mode \<Rightarrow> 'd) \<Rightarrow> labels option \<Rightarrow> tensor \<Rightarrow> bool \<Rightarrow> mode \<Rightarrow> graph \<Rightarrow>
   error + ('d est_gan_model list \<times> graph)" where
  "make_gan_models stage_builder augment stack_depth batch_size noise_dim generator_fn0
     discriminator_fn0 discriminator_inputs text_embedding abn md g =
     (let gen_fn = generator_fn0 md;
          dis_fn = discriminator_fn0 md;
          noise = random_normal batch_size noise_dim;
          (augmented_conditioning, mu, logvar) = augment text_embedding
      in make_gan_models_loop stage_builder gen_fn dis_fn stack_depth discriminator_inputs noise
           augmented_conditioning mu logvar abn [0..<stack_depth] [] g)"

text \<open>
  \<^verbatim>\<open>_gan_model_fn\<close>, up to the value it passes to the head as \<^verbatim>\<open>logits\<close>: the list
  of stage models in training and evaluation, a single model in prediction.
\<close>

datatype 'd logits = Models "'d est_gan_model list" | OneModel "'d est_gan_model"

definition gan_model_fn ::
  "(est_generator_fn \<Rightarrow> 'd \<Rightarrow> gan_model_kwargs \<Rightarrow> graph \<Rightarrow> error + ('d est_gan_model \<times> graph)) \<Rightarrow>
   (tensor \<Rightarrow> tensor \<times> tensor \<times> tensor) \<Rightarrow> nat \<Rightarrow> nat \<Rightarrow> nat \<Rightarrow> tensor \<Rightarrow> labels option \<Rightarrow>
   mode \<Rightarrow> (mode \<Rightarrow> est_generator_fn) \<Rightarrow> (mode \<Rightarrow> 'd) \<Rightarrow> bool \<Rightarrow> graph \<Rightarrow>
   error + ('d logits \<times> graph)" where
  "gan_model_fn stage_builder augment stack_depth batch_size noise_dim features labels_in md
     generator_fn0 discriminator_fn0 abn g =
     (let discriminator_inputs = labels_in;
          text_embedding = features
      in case md of
           TRAIN \<Rightarrow>
             (case make_gan_models stage_builder augment stack_depth batch_size noise_dim
                     generator_fn0 discriminator_fn0 discriminator_inputs text_embedding abn
                     TRAIN g of
                Inl e \<Rightarrow> Inl e | Inr (gan_models, g') \<Rightarrow> Inr (Models gan_models, g'))
         | EVAL \<Rightarrow>
             (case make_gan_models stage_builder augment stack_depth batch_size noise_dim
                     generator_fn0 discriminator_fn0 discriminator_inputs text_embedding abn
                     EVAL g of
                Inl e \<Rightarrow> Inl e | Inr (gan_models, g') \<Rightarrow> Inr (Models gan_models, g'))
         | PREDICT \<Rightarrow>
             (if discriminator_inputs \<noteq> None then Inl ValueError
              else (case make_prediction_gan_model augment stack_depth batch_size noise_dim
                           generator_fn0 text_embedding abn g of
                      Inl e \<Rightarrow> Inl e | Inr (m, g') \<Rightarrow> Inr (OneModel m, g'))))"

section \<open>The losses of \<^verbatim>\<open>train.py\<close>\<close>

text \<open>
  A loss is a scalar; it is modelled by the real number it stands for. A loss weight is
  \<^verbatim>\<open>None\<close> or a Python number (weights given as tensors are not modelled).
  \<^verbatim>\<open>_validate_aux_loss_weight\<close> and \<^verbatim>\<open>_use_aux_loss\<close> are TensorFlow's: the first
  raises \<^verbatim>\<open>ValueError\<close> on a negative number and returns the weight otherwise, the
  second is true for a number greater than zero. \<open>truthy\<close> is Python's truth value of
  a weight, as the operator \<^verbatim>\<open>and\<close> tests it.
\<close>

definition validate_aux_loss_weight :: "real option \<Rightarrow> error + real option" where
  "validate_aux_loss_weight aux_loss_weight =
     (case aux_loss_weight of
        None \<Rightarrow> Inr None
      | Some w \<Rightarrow> if w < 0 then Inl ValueError else Inr (Some w))"

definition use_aux_loss :: "real option \<Rightarrow> bool" where
  "use_aux_loss aux_loss_weight = (case aux_loss_weight of None \<Rightarrow> False | Some w \<Rightarrow> w > 0)"

definition truthy :: "real option \<Rightarrow> bool" where
  "truthy aux_loss_weight = (case aux_loss_weight of None \<Rightarrow> False | Some w \<Rightarrow> w \<noteq> 0)"

definition bind_e :: "error + 'a \<Rightarrow> ('a \<Rightarrow> error + 'b) \<Rightarrow> error + 'b" where
  "bind_e m f = (case m of Inl e \<Rightarrow> Inl e | Inr x \<Rightarrow> f x)"

text \<open>
  \<open>add_weighted w l acc\<close> is the statement
  \<^verbatim>\<open>if _use_aux_loss(w): acc += w * l\<close>.
\<close>

definition add_weighted :: "real option \<Rightarrow> real \<Rightarrow> real \<Rightarrow> real" where
  "add_weighted w l acc = (case w of None \<Rightarrow> acc | Some x \<Rightarrow> if x > 0 then acc + x * l else acc)"

text \<open>
  The class of the model tuple that \<^verbatim>\<open>isinstance\<close> looks at. The models of this
  repository are \<^verbatim>\<open>StackGANModel\<close> tuples, which are neither \<^verbatim>\<open>InfoGANModel\<close> nor
  \<^verbatim>\<open>ACGANModel\<close>.
\<close>

datatype model_class = StackGANModel | InfoGANModel | ACGANModel

text \<open>
  The loss functions of the library, the regularization loss of the scope with a given
  name, and the two helpers of the module \<^verbatim>\<open>util\<close> (\<^verbatim>\<open>_compute_mean_covariance\<close> and
  \<^verbatim>\<open>_tensor_pool_adjusted_model\<close>, not among the sources) are parameters, and so is
  the state of the graph that \<^verbatim>\<open>gen_loss\<close> depends on: whether the graph has a
  collection of regularization losses.
\<close>

record loss_fns =
  discriminator_loss_fn :: "stack_gan_model \<Rightarrow> real"
  generator_loss_fn :: "stack_gan_model \<Rightarrow> real"
  wasserstein_gradient_penalty :: "stack_gan_model \<Rightarrow> real"
  mutual_information_penalty :: "stack_gan_model \<Rightarrow> real"
  acgan_generator_loss :: "stack_gan_model \<Rightarrow> real"
  acgan_discriminator_loss :: "stack_gan_model \<Rightarrow> real"
  get_regularization_loss :: "string \<Rightarrow> real"
  regularization_losses_collected :: bool
  compute_mean_covariance :: "tensor \<Rightarrow> tensor \<times> tensor"
  mean_squared_error :: "tensor \<Rightarrow> tensor \<Rightarrow> real"
  tensor_pool_adjusted_model :: "stack_gan_model \<Rightarrow> stack_gan_model"

datatype discriminator_loss_tuple = DiscriminatorLoss (discriminator_loss: real)
datatype generator_loss_tuple = GeneratorLoss (generator_loss: real)

text \<open>
  \<^verbatim>\<open>color_loss\<close>. \<open>w\<close> is \<^verbatim>\<open>FLAGS.color_loss\<close> and \<open>stack_depth\<close> is
  \<^verbatim>\<open>FLAGS.stack_depth\<close>. The second loop runs over \<^verbatim>\<open>range(stack_depth - 1)\<close>; the
  assertion before it makes every index it uses lie inside the two lists.
\<close>

fun color_loss_loop ::
  "loss_fns \<Rightarrow> real \<Rightarrow> tensor list \<Rightarrow> tensor list \<Rightarrow> nat list \<Rightarrow> real \<Rightarrow> real" where
  "color_loss_loop fns w means covariances [] total_color_loss = total_color_loss"
| "color_loss_loop fns w means covariances (i # rest) total_color_loss =
     (let like_mu = w * mean_squared_error fns (means ! i) (means ! (i + 1));
          like_cov = w * 5 * mean_squared_error fns (covariances ! i) (covariances ! (i + 1))
      in color_loss_loop fns w means covariances rest (total_color_loss + (like_mu + like_cov)))"

definition color_loss :: "loss_fns \<Rightarrow> real \<Rightarrow> nat \<Rightarrow> stack_gan_model list \<Rightarrow> error + real" where
  "color_loss fns w stack_depth models =
     (let means = map (\<lambda>m. fst (compute_mean_covariance fns (generated_data m))) models;
          covariances = map (\<lambda>m. snd (compute_mean_covariance fns (generated_data m))) models
      in if \<not> (length means = length covariances \<and> length covariances = stack_depth)
         then Inl AssertionError
         else Inr (w * color_loss_loop fns w means covariances [0..<stack_depth - 1] 0))"

text \<open>
  \<^verbatim>\<open>dis_loss\<close>, with the class of the model given beside its fields. The four weights
  are validated in the order of the source, then the configuration is checked, then the
  loss is put together. The generator's auxiliary-classifier loss is computed in the source
  when its weight is in use but is not added to anything. The scopes recorded in a stage
  model are scope objects, which are true in a condition, so the regularization loss is
  always read from the scope.
\<close>

definition dis_loss ::
  "loss_fns \<Rightarrow> model_class \<Rightarrow> stack_gan_model \<Rightarrow> real option \<Rightarrow> real option \<Rightarrow> real option \<Rightarrow>
   real option \<Rightarrow> error + discriminator_loss_tuple" where
  "dis_loss fns cls model gradient_penalty_weight mutual_information_penalty_weight
     aux_cond_generator_weight aux_cond_discriminator_weight =
     bind_e (validate_aux_loss_weight gradient_penalty_weight) (\<lambda>gpw.
     bind_e (validate_aux_loss_weight mutual_information_penalty_weight) (\<lambda>miw.
     bind_e (validate_aux_loss_weight aux_cond_generator_weight) (\<lambda>acgw.
     bind_e (validate_aux_loss_weight aux_cond_discriminator_weight) (\<lambda>acdw.
       if use_aux_loss miw \<and> cls \<noteq> InfoGANModel then Inl ValueError
       else if (use_aux_loss acgw \<or> use_aux_loss acdw) \<and> cls \<noteq> ACGANModel then Inl ValueError
       else
         (let l0 = discriminator_loss_fn fns (tensor_pool_adjusted_model fns model);
              l1 = add_weighted gpw (wasserstein_gradient_penalty fns model) l0;
              l2 = add_weighted miw (mutual_information_penalty fns model) l1;
              l3 = add_weighted acdw (acgan_discriminator_loss fns model) l2;
              dis_reg_loss = get_regularization_loss fns (discriminator_scope model)
          in Inr (DiscriminatorLoss (l3 + dis_reg_loss)))))))"

text \<open>
  The loop of \<^verbatim>\<open>gen_loss\<close> over \<^verbatim>\<open>range(FLAGS.stack_depth)\<close>; \<^verbatim>\<open>models[i]\<close> raises
  \<^verbatim>\<open>IndexError\<close> outside the tuple of models.
\<close>

fun gen_loss_loop ::
  "loss_fns \<Rightarrow> stack_gan_model list \<Rightarrow> real option \<Rightarrow> real option \<Rightarrow> nat list \<Rightarrow> real \<Rightarrow>
   error + real" where
  "gen_loss_loop fns models miw acgw [] acc = Inr acc"
| "gen_loss_loop fns models miw acgw (i # rest) acc =
     bind_e (py_nth models i) (\<lambda>m.
       gen_loss_loop fns models miw acgw rest
         (add_weighted acgw (acgan_generator_loss fns m)
            (add_weighted miw (mutual_information_penalty fns m)
               (acc + generator_loss_fn fns m))))"

text \<open>
  \<^verbatim>\<open>gen_loss\<close>. Its two configuration checks mention a name \<^verbatim>\<open>model\<close>, which is bound
  neither in \<^verbatim>\<open>gen_loss\<close> (its parameter is \<^verbatim>\<open>models\<close>), nor in \<^verbatim>\<open>main\<close>, nor in the
  module: evaluating it raises \<^verbatim>\<open>NameError\<close>. In the first check the operator
  \<^verbatim>\<open>and\<close> evaluates it only when \<^verbatim>\<open>_use_aux_loss\<close> of the mutual-information weight is
  true. In the second check the whole conjunction
  \<^verbatim>\<open>aux_cond_generator_weight and not isinstance(model, ...)\<close> is the argument of
  \<^verbatim>\<open>_use_aux_loss\<close>: a weight that is \<^verbatim>\<open>None\<close> or zero is itself the value of the
  conjunction, any other weight makes Python evaluate \<^verbatim>\<open>model\<close>.
\<close>

definition model_name_lookup :: "error + model_class" where
  "model_name_lookup = Inl NameError"

text \<open>
  \<^verbatim>\<open>tf.losses.get_regularization_loss(scope)\<close> reads the graph's collection of
  regularization losses with \<^verbatim>\<open>get_collection\<close>. When the graph has no such collection
  the result is the empty list, whatever \<^verbatim>\<open>scope\<close> is, and the loss is the constant 0.
  Otherwise \<^verbatim>\<open>scope\<close> is compiled as a regular expression, which raises \<^verbatim>\<open>TypeError\<close>
  for a value that is not a string. \<^verbatim>\<open>dis_loss\<close> passes the name of the scope;
  \<^verbatim>\<open>gen_loss\<close> passes \<^verbatim>\<open>models[-1].generator_scope\<close>, the scope object itself
  (which is true in the condition before the call, so the other branch, a regularization
  loss of 0, is not taken).
\<close>

definition get_regularization_loss_of_scope_object :: "loss_fns \<Rightarrow> string \<Rightarrow> error + real" where
  "get_regularization_loss_of_scope_object fns scope_object =
     (if regularization_losses_collected fns then Inl TypeError else Inr 0)"

definition gen_loss ::
  "loss_fns \<Rightarrow> real \<Rightarrow> nat \<Rightarrow> stack_gan_model list \<Rightarrow> real option \<Rightarrow> real option \<Rightarrow>
   error + generator_loss_tuple" where
  "gen_loss fns flags_color_loss stack_depth models mutual_information_penalty_weight
     aux_cond_generator_weight =
     bind_e (validate_aux_loss_weight mutual_information_penalty_weight) (\<lambda>miw.
     bind_e (validate_aux_loss_weight aux_cond_generator_weight) (\<lambda>acgw.
     bind_e (if use_aux_loss miw
             then bind_e model_name_lookup (\<lambda>cls. Inr (cls \<noteq> InfoGANModel))
             else Inr False) (\<lambda>bad_info.
       if bad_info then Inl ValueError
       else
     bind_e (if truthy acgw
             then bind_e model_name_lookup (\<lambda>cls. Inr (use_aux_loss (Some (if cls \<noteq> ACGANModel then 1 else 0))))
             else Inr (use_aux_loss acgw)) (\<lambda>bad_acgan.
       if bad_acgan then Inl ValueError
       else
     bind_e (if flags_color_loss > 0 then color_loss fns flags_color_loss stack_depth models
             else Inr 0) (\<lambda>color_loss_value.
     bind_e (gen_loss_loop fns models miw acgw [0..<stack_depth] (0 + color_loss_value)) (\<lambda>l.
     bind_e (py_last models) (\<lambda>last_model.
     bind_e (get_regularization_loss_of_scope_object fns (generator_scope last_model))
       (\<lambda>gen_reg_loss.
          Inr (GeneratorLoss (l + gen_reg_loss))))))))))"

section \<open>Train operations and the training step of \<^verbatim>\<open>train.py\<close>\<close>

text \<open>
  A train operation made by \<^verbatim>\<open>create_train_op\<close>, recorded by what it was made from:
  the loss it minimises, the optimizer, the variables it updates and the update
  operations it runs first. The optimizer is left open.
\<close>

record 'o train_op =
  total_loss :: real
  optimizer :: 'o
  variables_to_train :: "string list"
  update_ops :: "string list"

definition create_train_op :: "real \<Rightarrow> 'o \<Rightarrow> string list \<Rightarrow> string list \<Rightarrow> 'o train_op" where
  "create_train_op loss opt vars uops =
     \<lparr> total_loss = loss, optimizer = opt, variables_to_train = vars, update_ops = uops \<rparr>"

text \<open>
  \<^verbatim>\<open>_get_dis_update_ops\<close> and \<^verbatim>\<open>_get_gen_update_ops\<close>. \<open>kw\<close> is the entry
  \<^verbatim>\<open>update_ops\<close> of the keyword dictionary (\<open>None\<close> when absent), which the function
  deletes; \<open>coll\<close> is the graph's collection of update operations, by name. The result
  is the intersection of two sets turned into a list; the order Python gives it is not
  specified, here it is the order of the collection.
\<close>

definition get_dis_update_ops ::
  "string list option \<Rightarrow> string \<Rightarrow> string list \<Rightarrow> string list \<times> string list option" where
  "get_dis_update_ops kw dis_scope coll =
     (let update_ops_set = (case kw of Some u \<Rightarrow> u | None \<Rightarrow> coll);
          all_dis_ops = filter (prefix dis_scope) coll
      in (remdups (filter (\<lambda>x. x \<in> set update_ops_set) all_dis_ops), None))"

definition get_gen_update_ops ::
  "string list option \<Rightarrow> string \<Rightarrow> string list \<Rightarrow> string list \<times> string list option" where
  "get_gen_update_ops kw gen_scope coll =
     (let update_ops_set = (case kw of Some u \<Rightarrow> u | None \<Rightarrow> coll);
          all_gen_ops = filter (prefix gen_scope) coll
      in (remdups (filter (\<lambda>x. x \<in> set update_ops_set) all_gen_ops), None))"

text \<open>
  The tuples of \<^verbatim>\<open>namedtuples.py\<close>. \<^verbatim>\<open>tfgan.GANTrainOps\<close> has the fields
  \<^verbatim>\<open>generator_train_op\<close>, \<^verbatim>\<open>discriminator_train_op\<close> and \<^verbatim>\<open>global_step_inc_op\<close>.
  \<^verbatim>\<open>DiscriminatorTrainOps\<close> keeps the fields that are neither \<^verbatim>\<open>generator_train_op\<close>
  nor \<^verbatim>\<open>global_step_inc_op\<close>, and \<^verbatim>\<open>GeneratorTrainOp\<close> those that are neither
  \<^verbatim>\<open>discriminator_train_op\<close> nor \<^verbatim>\<open>global_step_inc_op\<close>: each is a tuple of one
  field. Iterating a tuple yields its fields, so iterating a \<^verbatim>\<open>DiscriminatorTrainOps\<close>
  yields one item, the value of its field.
\<close>

datatype 'o discriminator_train_ops_tuple =
  DiscriminatorTrainOps (discriminator_train_op_of: "'o train_op list")

datatype 'o generator_train_op_tuple =
  GeneratorTrainOp (generator_train_op_of: "'o train_op")

fun tuple_items :: "'o discriminator_train_ops_tuple \<Rightarrow> 'o train_op list list" where
  "tuple_items (DiscriminatorTrainOps x) = [x]"

text \<open>
  \<^verbatim>\<open>generator_train_op\<close>: one operation for the whole stack, returned in a
  \<^verbatim>\<open>GeneratorTrainOp\<close> tuple.
\<close>

definition generator_train_op ::
  "stack_gan_model \<Rightarrow> generator_loss_tuple \<Rightarrow> 'o \<Rightarrow> string list option \<Rightarrow> string list \<Rightarrow>
   'o generator_train_op_tuple" where
  "generator_train_op model loss opt kw coll =
     (let (gen_update_ops, kw') = get_gen_update_ops kw (generator_scope model) coll;
          gen_train_op = create_train_op (generator_loss loss) opt (generator_variables model)
                           gen_update_ops
      in GeneratorTrainOp gen_train_op)"

text \<open>
  \<^verbatim>\<open>discriminator_train_ops\<close>: a first loop over \<^verbatim>\<open>range(FLAGS.stack_depth)\<close> collects
  the update operations of every stage (the keyword dictionary is passed from one call
  to the next), a second loop makes one train operation per stage. \<^verbatim>\<open>models[i]\<close> and
  \<^verbatim>\<open>losses[i]\<close> raise \<^verbatim>\<open>IndexError\<close> outside their sequences. The list of the
  operations is returned as the one field of a \<^verbatim>\<open>DiscriminatorTrainOps\<close> tuple.
\<close>

fun dis_update_ops_loop ::
  "stack_gan_model list \<Rightarrow> string list \<Rightarrow> nat list \<Rightarrow> string list option \<Rightarrow> string list list \<Rightarrow>
   error + string list list" where
  "dis_update_ops_loop models coll [] kw dis_update_ops = Inr dis_update_ops"
| "dis_update_ops_loop models coll (i # rest) kw dis_update_ops =
     bind_e (py_nth models i) (\<lambda>m.
       (let (current_dis_update_ops, kw') = get_dis_update_ops kw (discriminator_scope m) coll
        in dis_update_ops_loop models coll rest kw' (dis_update_ops @ [current_dis_update_ops])))"

fun disc_train_ops_loop ::
  "stack_gan_model list \<Rightarrow> discriminator_loss_tuple list \<Rightarrow> 'o \<Rightarrow> string list list \<Rightarrow> nat list \<Rightarrow>
   'o train_op list \<Rightarrow> error + 'o train_op list" where
  "disc_train_ops_loop models losses opt dis_update_ops [] disc_train_ops = Inr disc_train_ops"
| "disc_train_ops_loop models losses opt dis_update_ops (i # rest) disc_train_ops =
     bind_e (py_nth losses i) (\<lambda>l.
     bind_e (py_nth models i) (\<lambda>m.
     bind_e (py_nth dis_update_ops i) (\<lambda>uops.
       disc_train_ops_loop models losses opt dis_update_ops rest
         (disc_train_ops @
            [create_train_op (discriminator_loss l) opt (discriminator_variables m) uops]))))"

definition discriminator_train_ops ::
  "nat \<Rightarrow> stack_gan_model list \<Rightarrow> discriminator_loss_tuple list \<Rightarrow> 'o \<Rightarrow> string list option \<Rightarrow>
   string list \<Rightarrow> error + 'o discriminator_train_ops_tuple" where
  "discriminator_train_ops stack_depth models losses opt kw coll =
     bind_e (dis_update_ops_loop models coll [0..<stack_depth] kw []) (\<lambda>dis_update_ops.
     bind_e (disc_train_ops_loop models losses opt dis_update_ops [0..<stack_depth] [])
       (\<lambda>disc_train_ops. Inr (DiscriminatorTrainOps disc_train_ops)))"

text \<open>
  What is handed to \<^verbatim>\<open>session.run\<close>: one operation, a list of operations, or a
  \<^verbatim>\<open>GeneratorTrainOp\<close> tuple. One call of \<^verbatim>\<open>session.run\<close> runs every operation of
  its argument once; the call defines no order among them. What a session does is a
  list of events: a call of \<^verbatim>\<open>session.run\<close> on train operations, recorded with the
  operations it was given, or the increment of the global step.
\<close>

datatype 'o fetches =
    OneOp "'o train_op"
  | OpList "'o train_op list"
  | OpTuple "'o generator_train_op_tuple"

fun fetched_ops :: "'o fetches \<Rightarrow> 'o train_op list" where
  "fetched_ops (OneOp x) = [x]"
| "fetched_ops (OpList xs) = xs"
| "fetched_ops (OpTuple (GeneratorTrainOp x)) = [x]"

datatype 'o event = SessionRun "'o train_op list" | GlobalStepInc

text \<open>
  \<^verbatim>\<open>tfgan.GANTrainOps\<close> as \<^verbatim>\<open>main\<close> fills it (generator tuple, discriminator tuple,
  global step increment) and \<^verbatim>\<open>tfgan.GANTrainSteps\<close> (generator steps, discriminator
  steps).
\<close>

record 'o gan_train_ops =
  generator_train_op_field :: "'o generator_train_op_tuple"
  discriminator_train_op_field :: "'o discriminator_train_ops_tuple"
  global_step_inc_op :: "'o event"

record gan_train_steps =
  generator_train_steps :: nat
  discriminator_train_steps :: nat

text \<open>
  TensorFlow's \<^verbatim>\<open>RunTrainOpsHook(train_ops, train_steps)\<close>: the constructor puts an
  argument that is neither a list nor a tuple into a list, and \<^verbatim>\<open>before_run\<close> calls
  \<^verbatim>\<open>session.run(train_ops)\<close> \<open>train_steps\<close> times.
\<close>

datatype 'o hook = Hook "'o fetches" nat

definition RunTrainOpsHook :: "'o fetches \<Rightarrow> nat \<Rightarrow> 'o hook" where
  "RunTrainOpsHook train_ops train_steps =
     Hook (case train_ops of OneOp x \<Rightarrow> OpList [x] | OpList xs \<Rightarrow> OpList xs | OpTuple t \<Rightarrow> OpTuple t)
       train_steps"

fun before_run :: "'o hook \<Rightarrow> 'o event list" where
  "before_run (Hook train_ops train_steps) = replicate train_steps (SessionRun (fetched_ops train_ops))"

text \<open>
  \<^verbatim>\<open>get_sequential_train_hooks(train_steps)\<close> applied to the train operations:
  \<^verbatim>\<open>get_hooks\<close>. The loop runs over \<^verbatim>\<open>train_ops.discriminator_train_op\<close>, which is the
  \<^verbatim>\<open>DiscriminatorTrainOps\<close> tuple, so \<^verbatim>\<open>train_op\<close> is bound to the items of that
  tuple; the generator hook is given the \<^verbatim>\<open>GeneratorTrainOp\<close> tuple. The default of
  \<^verbatim>\<open>train_steps\<close> is \<^verbatim>\<open>GANTrainSteps(1, 1)\<close>.
\<close>

definition get_hooks :: "gan_train_steps \<Rightarrow> 'o gan_train_ops \<Rightarrow> 'o hook list" where
  "get_hooks train_steps train_ops =
     map (\<lambda>train_op. RunTrainOpsHook (OpList train_op) (discriminator_train_steps train_steps))
       (tuple_items (discriminator_train_op_field train_ops))
     @ [RunTrainOpsHook (OpTuple (generator_train_op_field train_ops))
          (generator_train_steps train_steps)]"

definition default_train_steps :: gan_train_steps where
  "default_train_steps = \<lparr> generator_train_steps = 1, discriminator_train_steps = 1 \<rparr>"

text \<open>
  One step of \<^verbatim>\<open>tfgan.gan_train\<close>: the monitored session calls \<^verbatim>\<open>before_run\<close> of the
  hooks in the order of the list and then runs the operation it was given, the global
  step increment. The two hooks that \<^verbatim>\<open>main\<close> adds (stop at a step, logging) run no
  train operation and are left out.
\<close>

definition train_step :: "'o hook list \<Rightarrow> 'o gan_train_ops \<Rightarrow> 'o event list" where
  "train_step hooks train_ops = concat (map before_run hooks) @ [global_step_inc_op train_ops]"

text \<open>
  The train operations as \<^verbatim>\<open>main\<close> puts them together from the models, the losses and
  the two optimizers, with no \<^verbatim>\<open>update_ops\<close> keyword, and the events of one training
  step with the hooks of \<^verbatim>\<open>get_sequential_train_hooks()\<close>.
\<close>

definition main_train_ops ::
  "nat \<Rightarrow> stack_gan_model list \<Rightarrow> discriminator_loss_tuple list \<Rightarrow> generator_loss_tuple \<Rightarrow>
   'o \<Rightarrow> 'o \<Rightarrow> string list \<Rightarrow> error + 'o gan_train_ops" where
  "main_train_ops stack_depth gan_models dis_losses gen_loss_tuple gen_opt dis_opt coll =
     bind_e (py_last gan_models) (\<lambda>last_model.
       (let gen_train_op = generator_train_op last_model gen_loss_tuple gen_opt None coll
        in bind_e (discriminator_train_ops stack_depth gan_models dis_losses dis_opt None coll)
             (\<lambda>disc_train_ops.
                Inr \<lparr> generator_train_op_field = gen_train_op,
                      discriminator_train_op_field = disc_train_ops,
                      global_step_inc_op = GlobalStepInc \<rparr>)))"

definition main_train_step ::
  "gan_train_steps \<Rightarrow> 'o gan_train_ops \<Rightarrow> 'o event list" where
  "main_train_step train_steps train_ops = train_step (get_hooks train_steps train_ops) train_ops"

section \<open>Notions used to state the properties of the stack\<close>

text \<open>
  The generated data and hidden code that the chain of generator calls of \<^verbatim>\<open>main\<close>
  produces at stage \<open>i\<close>: stage 0 is fed the noise, stage \<open>i + 1\<close> the hidden code of
  stage \<open>i\<close> and the noise.
\<close>

fun generator_chain :: "generator_fn \<Rightarrow> tensor \<Rightarrow> bool \<Rightarrow> nat \<Rightarrow> tensor \<times> tensor" where
  "generator_chain gen_fn noise abn 0 = fst (gen_fn (OneTensor noise) (train_final_size 0) abn)"
| "generator_chain gen_fn noise abn (Suc i) =
     fst (gen_fn (TensorList [snd (generator_chain gen_fn noise abn i), noise])
            (train_final_size (Suc i)) abn)"

text \<open>
  The graph after the three groups of variable requests of one \<^verbatim>\<open>gan_model\<close> call:
  the generator's, then the discriminator's on generated and on real data.
\<close>

definition stage_graph ::
  "generator_fn \<Rightarrow> discriminator_fn \<Rightarrow> tensor \<Rightarrow> gen_inputs \<Rightarrow> nat \<Rightarrow> string \<Rightarrow> bool \<Rightarrow> graph \<Rightarrow> graph" where
  "stage_graph gf df r inputs s ssc abn g =
     get_variables (''Discriminator_stage_'' @ str s) (snd (df r abn))
       (get_variables (''Discriminator_stage_'' @ str s)
          (snd (df (fst (fst (gf inputs (train_final_size s) abn))) abn))
          (get_variables (scope_join ssc (''Generator_stage_'' @ str s))
             (snd (gf inputs (train_final_size s) abn)) g))"

text \<open>
  What the model at position \<open>i\<close> of a stack built by \<^verbatim>\<open>main\<close> records.
\<close>

definition stage_ok ::
  "generator_fn \<Rightarrow> (nat \<Rightarrow> tensor) \<Rightarrow> tensor \<Rightarrow> bool \<Rightarrow> stack_gan_model list \<Rightarrow> nat \<Rightarrow> bool" where
  "stage_ok gf rf nz abn ms i =
     (stage (ms ! i) = i
      \<and> generator_scope (ms ! i) = ''Generator''
      \<and> real_data (ms ! i) = rf i
      \<and> discriminator_scope (ms ! i) = ''Discriminator_stage_'' @ str i
      \<and> generator_inputs (ms ! i) =
          (if i = 0 then OneTensor nz
           else TensorList [generator_hidden_code (ms ! (i - 1)), nz])
      \<and> generated_data (ms ! i) = fst (generator_chain gf nz abn i)
      \<and> generator_hidden_code (ms ! i) = snd (generator_chain gf nz abn i)
      \<and> is_compatible_with (shape (fst (generator_chain gf nz abn i))) (shape (rf i)))"

text \<open>
  The test of \<^verbatim>\<open>check_shapes\<close> at stage \<open>i\<close> of \<^verbatim>\<open>main\<close>: the generated data of
  that stage against the stage's real data.
\<close>

definition shapes_match :: "generator_fn \<Rightarrow> (nat \<Rightarrow> tensor) \<Rightarrow> tensor \<Rightarrow> bool \<Rightarrow> nat \<Rightarrow> bool" where
  "shapes_match gf rf nz abn i =
     is_compatible_with (shape (fst (generator_chain gf nz abn i))) (shape (rf i))"

text \<open>
  The colour-consistency loss as the specification states it: over the adjacent pairs of
  stages \<open>(i, i + 1)\<close>, the sum of \<open>w\<close> times the squared error of the means and
  \<open>5 * w\<close> times the squared error of the covariances of the two stages' generated data.
\<close>

definition color_loss_spec :: "loss_fns \<Rightarrow> real \<Rightarrow> stack_gan_model list \<Rightarrow> real" where
  "color_loss_spec fns w models =
     (\<Sum>i\<leftarrow>[0..<length models - 1].
        w * mean_squared_error fns
              (fst (compute_mean_covariance fns (generated_data (models ! i))))
              (fst (compute_mean_covariance fns (generated_data (models ! (i + 1)))))
        + 5 * w * mean_squared_error fns
              (snd (compute_mean_covariance fns (generated_data (models ! i))))
              (snd (compute_mean_covariance fns (generated_data (models ! (i + 1))))))"

text \<open>The number that a string of decimal digits denotes; it reads \<open>str n\<close> back.\<close>

definition str_value :: "string \<Rightarrow> nat" where
  "str_value s = foldl (\<lambda>a c. 10 * a + (of_char c - 48)) 0 s"

text \<open>
  The names in the graph after \<open>n\<close> stages of \<^verbatim>\<open>main\<close>: every variable lies under the
  generator super scope or under the discriminator scope of one of the stages built.
\<close>

definition graph_names_ok :: "nat \<Rightarrow> graph \<Rightarrow> bool" where
  "graph_names_ok n g =
     list_all (\<lambda>x. prefix ''Generator/'' x
                 \<or> list_ex (\<lambda>j. prefix (''Discriminator_stage_'' @ str j @ ''/'') x) [0..<n]) g"

section \<open>A small instance\<close>

text \<open>
  Network functions and inputs on which the definitions are evaluated: a generator that
  produces images of the requested size in batches of 8 and asks for one variable, a
  discriminator with one variable, and the corresponding functions for the estimator.
  \<open>toy_stage_builder\<close> stands for a stage builder of the estimator: it calls the input
  closure, runs the generator and records the stage it was given.
\<close>

definition toy_generator :: generator_fn where
  "toy_generator inputs final_size abn =
     ((Tensor ''images'' (Some [Some 8, Some final_size, Some final_size, Some 3]),
       Tensor (''hidden_'' @ str final_size) None), [''weights''])"

definition toy_discriminator :: discriminator_fn where
  "toy_discriminator img abn = (Tensor ''logits'' (Some [None, Some 1]), [''weights''])"

definition toy_noise :: tensor where
  "toy_noise = Tensor ''noise'' (Some [Some 8, Some 64])"

definition toy_embedding :: tensor where
  "toy_embedding = Tensor ''text_embedding'' (Some [Some 8, Some 1024])"

definition toy_augment :: "tensor \<Rightarrow> tensor \<times> tensor \<times> tensor" where
  "toy_augment text_embedding =
     (Tensor ''conditioning'' None, Tensor ''mu'' None, Tensor ''logvar'' None)"

definition toy_est_generator :: "mode \<Rightarrow> est_generator_fn" where
  "toy_est_generator md inputs final_size abn =
     ((Tensor ''images'' (Some [Some 8, Some final_size, Some final_size, Some 3]),
       Tensor (''hidden_'' @ str final_size) None), [''weights''])"

definition toy_est_discriminator :: "mode \<Rightarrow> unit" where
  "toy_est_discriminator md = ()"

definition toy_stage_builder ::
  "est_generator_fn \<Rightarrow> unit \<Rightarrow> gan_model_kwargs \<Rightarrow> graph \<Rightarrow> error + (unit est_gan_model \<times> graph)" where
  "toy_stage_builder gen_fn dis_fn kw g =
     (case generator_inputs_kw kw of
        Triple a b c \<Rightarrow> Inl TypeError
      | Closure f \<Rightarrow>
         (case f () of
            Inl e \<Rightarrow> Inl e
          | Inr (is_init_stage, noise, conditioning) \<Rightarrow>
             (let inputs = EstInputs is_init_stage [noise, conditioning];
                  ((gen_data, hidden_code), gen_locals) =
                     gen_fn inputs (2 ^ (6 + stage_kw kw)) (apply_batch_norm_kw kw)
              in Inr (\<lparr> generator_inputs_est = inputs,
                          generated_data_est = gen_data,
                          generator_variables_est = [],
                          generator_scope_est = ''Generator'',
                          generator_fn_est = gen_fn,
                          generator_hidden_code_est = hidden_code,
                          stage_est = stage_kw kw,
                          real_data_est = None,
                          discriminator_real_outputs_est = None,
                          discriminator_gen_outputs_est = None,
                          discriminator_variables_est = None,
                          discriminator_scope_est = None,
                          discriminator_fn_est = Some dis_fn,
                          disc_real_outputs_uncond_est = None,
                          disc_gen_outputs_uncond_est = None,
                          mu_est = mu_kw kw,
                          logvar_est = logvar_kw kw \<rparr>, g))))"


text \<open>
  A stage model for the toy generator at stage \<open>i\<close>, with one variable per network, and
  loss functions: every library loss is 1, the graph has no regularization loss, the mean
  of a batch is told apart by the batch itself, all covariances are the same, and the
  squared error is 0 between equal statistics and 1 otherwise.
\<close>

definition toy_model :: "nat \<Rightarrow> stack_gan_model" where
  "toy_model i =
     \<lparr> generator_inputs = OneTensor toy_noise,
       generated_data = fst (fst (toy_generator (OneTensor toy_noise) (train_final_size i) False)),
       generator_variables = [''Generator/Generator_stage_'' @ str i @ ''/weights''],
       generator_scope = ''Generator'',
       generator_fn = toy_generator,
       real_data = get_real_data_for_stage 8 i,
       discriminator_real_outputs = fst (toy_discriminator (get_real_data_for_stage 8 i) False),
       discriminator_gen_outputs = fst (toy_discriminator (get_real_data_for_stage 8 i) False),
       discriminator_variables = [''Discriminator_stage_'' @ str i @ ''/weights''],
       discriminator_scope = ''Discriminator_stage_'' @ str i,
       discriminator_fn = toy_discriminator,
       generator_hidden_code = snd (fst (toy_generator (OneTensor toy_noise) (train_final_size i) False)),
       stage = i \<rparr>"

definition toy_loss_fns :: loss_fns where
  "toy_loss_fns =
     \<lparr> discriminator_loss_fn = (\<lambda>m. 1),
       generator_loss_fn = (\<lambda>m. 1),
       wasserstein_gradient_penalty = (\<lambda>m. 1),
       mutual_information_penalty = (\<lambda>m. 1),
       acgan_generator_loss = (\<lambda>m. 1),
       acgan_discriminator_loss = (\<lambda>m. 1),
       get_regularization_loss = (\<lambda>sc. 0),
       regularization_losses_collected = False,
       compute_mean_covariance = (\<lambda>t. (t, Tensor ''covariance'' None)),
       mean_squared_error = (\<lambda>a b. if a = b then 0 else 1),
       tensor_pool_adjusted_model = (\<lambda>m. m) \<rparr>"

definition toy_stack :: "stack_gan_model list" where
  "toy_stack = [toy_model 0, toy_model 1]"

section \<open>Lemmas on decimal strings\<close>

lemma of_char_digit_char: "d < 10 \<Longrightarrow> (of_char (digit_char d) :: nat) = 48 + d"
  by (simp add: digit_char_def)

lemma digit_char_not_slash: "d < 10 \<Longrightarrow> digit_char d \<noteq> CHR ''/''"
proof
  assume d: "d < 10" and eq: "digit_char d = CHR ''/''"
  from eq have "(of_char (digit_char d) :: nat) = of_char CHR ''/''" by simp
  with d show False by (simp add: of_char_digit_char)
qed

lemma slash_not_in_str: "CHR ''/'' \<notin> set (str n)"
proof (induction n rule: str.induct)
  case (1 n)
  show ?case
  proof (cases "n < 10")
    case True
    then show ?thesis using digit_char_not_slash [of n] by (subst str.simps) auto
  next
    case False
    moreover have "n mod 10 < 10" by simp
    ultimately show ?thesis
      using 1 digit_char_not_slash [of "n mod 10"] by (subst str.simps) auto
  qed
qed


lemma str_value_str: "str_value (str n) = n"
proof (induction n rule: str.induct)
  case (1 n)
  show ?case
  proof (cases "n < 10")
    case True
    then show ?thesis by (subst str.simps) (simp add: str_value_def of_char_digit_char)
  next
    case False
    have m: "n mod 10 < 10" by simp
    have "str_value (str n) = 10 * str_value (str (n div 10)) + n mod 10"
      using False by (subst str.simps) (simp add: str_value_def of_char_digit_char [OF m])
    then show ?thesis using 1 False by simp
  qed
qed

lemma str_inj: "str i = str j \<Longrightarrow> i = j"
  by (metis str_value_str)

lemma length_str_mono: "j \<le> i \<Longrightarrow> length (str j) \<le> length (str i)"
proof (induction i arbitrary: j rule: str.induct)
  case (1 n)
  show ?case
  proof (cases "n < 10")
    case True
    then have "j < 10" using 1 by simp
    then have "length (str j) = 1" by (subst str.simps) simp
    moreover have "length (str n) = 1" using True by (subst str.simps) simp
    ultimately show ?thesis by simp
  next
    case False
    then have ln: "length (str n) = Suc (length (str (n div 10)))"
      by (subst str.simps) simp
    show ?thesis
    proof (cases "j < 10")
      case True
      then have "length (str j) = 1" by (subst str.simps) simp
      then show ?thesis using ln by simp
    next
      case jf: False
      then have lj: "length (str j) = Suc (length (str (j div 10)))"
        by (subst str.simps) simp
      have "j div 10 \<le> n div 10" using 1(2) by (rule div_le_mono)
      from 1(1) [OF False this] show ?thesis using ln lj by simp
    qed
  qed
qed

lemma append_sep_eq:
  "c \<notin> set xs \<Longrightarrow> c \<notin> set ys \<Longrightarrow> xs @ c # a = ys @ c # b \<Longrightarrow> xs = ys"
proof (induction xs arbitrary: ys)
  case Nil
  then show ?case by (cases ys) auto
next
  case (Cons x xs)
  then show ?case by (cases ys) auto
qed

lemma str_prefix_of_earlier:
  assumes "j \<le> i" "prefix (str i) (str j @ CHR ''/'' # l)"
  shows "i = j"
proof -
  from assms(2) obtain zs where zs: "str j @ CHR ''/'' # l = str i @ zs"
    by (auto simp: prefix_def)
  have len: "length (str j) \<le> length (str i)" using assms(1) by (rule length_str_mono)
  from zs have "take (length (str j)) (str i @ zs) = str j" by (metis append_eq_conv_conj)
  with len have tk: "take (length (str j)) (str i) = str j" by simp
  show ?thesis
  proof (cases "length (str j) = length (str i)")
    case True
    with tk have "str i = str j" by simp
    then show ?thesis by (rule str_inj)
  next
    case False
    with len have lt: "length (str j) < length (str i)" by simp
    from zs have "(str i @ zs) ! length (str j) = CHR ''/''"
      by (metis nth_append_length)
    with lt have "str i ! length (str j) = CHR ''/''" by (simp add: nth_append)
    with lt have "CHR ''/'' \<in> set (str i)" by (metis nth_mem)
    then show ?thesis using slash_not_in_str by simp
  qed
qed

section \<open>Lemmas on building the stack in \<^verbatim>\<open>train.py\<close>\<close>

lemma gan_model_Inr:
  assumes "gan_model gf df r inp_fn s ssc cs abn g = Inr (m, g')"
  shows "\<exists>inputs. inp_fn () = Inr inputs
     \<and> stage m = s \<and> generator_inputs m = inputs
     \<and> generated_data m = fst (fst (gf inputs (train_final_size s) abn))
     \<and> generator_hidden_code m = snd (fst (gf inputs (train_final_size s) abn))
     \<and> generator_scope m = get_or_create_gen_super_scope ssc
     \<and> real_data m = r
     \<and> discriminator_scope m = ''Discriminator_stage_'' @ str s
     \<and> (cs \<longrightarrow> is_compatible_with (shape (generated_data m)) (shape r))
     \<and> g' = stage_graph gf df r inputs s (get_or_create_gen_super_scope ssc) abn g
     \<and> generator_variables m = trainable_variables (get_or_create_gen_super_scope ssc) g'
     \<and> discriminator_variables m = trainable_variables (''Discriminator_stage_'' @ str s) g'"
  using assms
  by (auto simp: gan_model_def stage_graph_def Let_def split: sum.splits prod.splits if_splits)

lemma gan_model_result:
  assumes "inp_fn () = Inr inputs"
  shows "\<exists>m. gan_model gf df r inp_fn s ssc cs abn g =
     (if cs \<and> \<not> is_compatible_with (shape (fst (fst (gf inputs (train_final_size s) abn)))) (shape r)
      then Inl ValueError
      else Inr (m, stage_graph gf df r inputs s (get_or_create_gen_super_scope ssc) abn g))"
  using assms
  by (auto simp: gan_model_def stage_graph_def Let_def split: sum.splits prod.splits if_splits)

lemma main_loop_append:
  "main_loop gf df rf nz abn (xs @ ys) ms g =
     (case main_loop gf df rf nz abn xs ms g of Inl e \<Rightarrow> Inl e
      | Inr (ms', g') \<Rightarrow> main_loop gf df rf nz abn ys ms' g')"
  by (induction xs arbitrary: ms g) (auto split: sum.splits)

lemma main_gan_models_Suc:
  "main_gan_models gf df rf nz abn (Suc n) =
     (case main_gan_models gf df rf nz abn n of Inl e \<Rightarrow> Inl e
      | Inr (ms, g) \<Rightarrow> main_loop gf df rf nz abn [n] ms g)"
  by (simp add: main_gan_models_def main_loop_append)

lemma main_loop_single:
  "main_loop gf df rf nz abn [i] ms g =
     (case (if i > 0
            then (case py_last ms of Inl e \<Rightarrow> Inl e | Inr m \<Rightarrow> Inr (Some (generator_scope m)))
            else Inr None) of
        Inl e \<Rightarrow> Inl e
      | Inr ssc \<Rightarrow>
         (case gan_model gf df (rf i) (get_generator_input_for_stage ms i nz) i ssc True abn g of
            Inl e \<Rightarrow> Inl e
          | Inr (m, g') \<Rightarrow> Inr (ms @ [m], g')))"
  by (simp split: sum.splits prod.splits)

lemma main_gan_models_0: "main_gan_models gf df rf nz abn 0 = Inr ([], [])"
  by (simp add: main_gan_models_def)

lemma main_gan_models_Suc_Inr:
  assumes "main_gan_models gf df rf nz abn (Suc n) = Inr (ms', g')"
  shows "\<exists>ms g m ssc. main_gan_models gf df rf nz abn n = Inr (ms, g) \<and> ms' = ms @ [m]
            \<and> (if n > 0 then ms \<noteq> [] \<and> ssc = Some (generator_scope (last ms)) else ssc = None)
            \<and> gan_model gf df (rf n) (get_generator_input_for_stage ms n nz) n ssc True abn g
                = Inr (m, g')"
  using assms
  by (auto simp: main_gan_models_Suc main_loop_single py_last_def
           split: sum.splits prod.splits if_splits list.splits)

lemma main_gan_models_inv:
  "main_gan_models gf df rf nz abn n = Inr (ms, g) \<Longrightarrow>
     length ms = n \<and> (\<forall>i<n. stage_ok gf rf nz abn ms i)"
proof (induction n arbitrary: ms g)
  case 0
  then show ?case by (simp add: main_gan_models_0)
next
  case (Suc n)
  from main_gan_models_Suc_Inr [OF Suc.prems]
  obtain ms0 g0 m ssc where
    prev: "main_gan_models gf df rf nz abn n = Inr (ms0, g0)" and
    ms: "ms = ms0 @ [m]" and
    ssc: "if n > 0 then ms0 \<noteq> [] \<and> ssc = Some (generator_scope (last ms0)) else ssc = None" and
    gm: "gan_model gf df (rf n) (get_generator_input_for_stage ms0 n nz) n ssc True abn g0
           = Inr (m, g)"
    by blast
  from Suc.IH [OF prev] have len: "length ms0 = n" and
    ih: "\<forall>i<n. stage_ok gf rf nz abn ms0 i" by auto
  have old: "stage_ok gf rf nz abn ms i" if "i < n" for i
  proof -
    have "stage_ok gf rf nz abn ms0 i" using ih that by simp
    moreover have "ms ! i = ms0 ! i" using that len ms by (simp add: nth_append)
    moreover have "ms ! (i - 1) = ms0 ! (i - 1)" using that len ms by (simp add: nth_append)
    ultimately show ?thesis unfolding stage_ok_def by simp
  qed
  have sscG: "get_or_create_gen_super_scope ssc = ''Generator''"
  proof (cases "n > 0")
    case True
    then have "ms0 \<noteq> []" "ssc = Some (generator_scope (last ms0))" using ssc by auto
    moreover have "last ms0 = ms0 ! (n - 1)" using \<open>ms0 \<noteq> []\<close> len by (simp add: last_conv_nth)
    moreover have "stage_ok gf rf nz abn ms0 (n - 1)" using ih True by simp
    ultimately show ?thesis by (simp add: get_or_create_gen_super_scope_def stage_ok_def)
  next
    case False
    then show ?thesis using ssc by (simp add: get_or_create_gen_super_scope_def)
  qed
  have inp: "get_generator_input_for_stage ms0 n nz () =
      Inr (if n = 0 then OneTensor nz else TensorList [generator_hidden_code (ms0 ! (n - 1)), nz])"
    using len by (auto simp: get_generator_input_for_stage_def py_nth_def)
  have hid: "n > 0 \<Longrightarrow> generator_hidden_code (ms0 ! (n - 1)) = snd (generator_chain gf nz abn (n - 1))"
    using ih by (simp add: stage_ok_def)
  have chain: "fst (gf (if n = 0 then OneTensor nz else TensorList [generator_hidden_code (ms0 ! (n - 1)), nz])
                  (train_final_size n) abn) = generator_chain gf nz abn n"
    using hid by (cases n) auto
  have mlast: "ms ! n = m" using ms len by (simp add: nth_append)
  have mprev: "n > 0 \<Longrightarrow> ms ! (n - 1) = ms0 ! (n - 1)" using ms len by (simp add: nth_append)
  have new: "stage_ok gf rf nz abn ms n"
    using gan_model_Inr [OF gm] inp sscG chain mlast mprev
    by (auto simp: stage_ok_def)
  have "\<forall>i<Suc n. stage_ok gf rf nz abn ms i"
    using old new by (auto simp: less_Suc_eq)
  moreover have "length ms = Suc n" using ms len by simp
  ultimately show ?case by simp
qed

lemma main_gan_models_step:
  assumes prev: "main_gan_models gf df rf nz abn n = Inr (ms, g)"
  shows "\<exists>m g'. main_gan_models gf df rf nz abn (Suc n) =
           (if shapes_match gf rf nz abn n then Inr (ms @ [m], g') else Inl ValueError)"
proof -
  from main_gan_models_inv [OF prev] have len: "length ms = n" and
    ih: "\<forall>i<n. stage_ok gf rf nz abn ms i" by auto
  let ?inputs = "if n = 0 then OneTensor nz else TensorList [generator_hidden_code (ms ! (n - 1)), nz]"
  let ?ssc = "if n > 0 then Some (generator_scope (last ms)) else None"
  have inp: "get_generator_input_for_stage ms n nz () = Inr ?inputs"
    using len by (auto simp: get_generator_input_for_stage_def py_nth_def)
  have hid: "n > 0 \<Longrightarrow> generator_hidden_code (ms ! (n - 1)) = snd (generator_chain gf nz abn (n - 1))"
    using ih by (simp add: stage_ok_def)
  have chain: "fst (gf ?inputs (train_final_size n) abn) = generator_chain gf nz abn n"
    using hid by (cases n) auto
  have step: "main_loop gf df rf nz abn [n] ms g =
      (case gan_model gf df (rf n) (get_generator_input_for_stage ms n nz) n ?ssc True abn g of
         Inl e \<Rightarrow> Inl e | Inr (m, g') \<Rightarrow> Inr (ms @ [m], g'))"
    using len by (cases ms) (auto simp: py_last_def split: sum.splits)
  from gan_model_result [where inp_fn = "get_generator_input_for_stage ms n nz"
      and inputs = ?inputs and gf = gf and df = df and r = "rf n" and s = n and ssc = ?ssc
      and cs = True and abn = abn and g = g] inp
  obtain m where gm: "gan_model gf df (rf n) (get_generator_input_for_stage ms n nz) n ?ssc True abn g =
     (if \<not> shapes_match gf rf nz abn n
      then Inl ValueError
      else Inr (m, stage_graph gf df (rf n) ?inputs n (get_or_create_gen_super_scope ?ssc) abn g))"
    unfolding shapes_match_def chain [symmetric] by auto
  have "main_gan_models gf df rf nz abn (Suc n) = main_loop gf df rf nz abn [n] ms g"
    by (simp add: main_gan_models_Suc prev del: main_loop.simps)
  then have eq: "main_gan_models gf df rf nz abn (Suc n) =
      (case gan_model gf df (rf n) (get_generator_input_for_stage ms n nz) n ?ssc True abn g of
         Inl e \<Rightarrow> Inl e | Inr (m, g') \<Rightarrow> Inr (ms @ [m], g'))"
    by (simp only: step)
  show ?thesis
    by (cases "shapes_match gf rf nz abn n") (simp_all add: eq gm)
qed

lemma main_gan_models_cases:
  "(\<exists>ms g. main_gan_models gf df rf nz abn n = Inr (ms, g) \<and> (\<forall>i<n. shapes_match gf rf nz abn i))
   \<or> (main_gan_models gf df rf nz abn n = Inl ValueError \<and> (\<exists>i<n. \<not> shapes_match gf rf nz abn i))"
proof (induction n)
  case 0
  then show ?case by (simp add: main_gan_models_0)
next
  case (Suc n)
  from Suc.IH show ?case
  proof
    assume "\<exists>ms g. main_gan_models gf df rf nz abn n = Inr (ms, g) \<and> (\<forall>i<n. shapes_match gf rf nz abn i)"
    then obtain ms g where prev: "main_gan_models gf df rf nz abn n = Inr (ms, g)"
      and all: "\<forall>i<n. shapes_match gf rf nz abn i" by blast
    from main_gan_models_step [OF prev] obtain m g' where
      st: "main_gan_models gf df rf nz abn (Suc n) =
           (if shapes_match gf rf nz abn n then Inr (ms @ [m], g') else Inl ValueError)" by blast
    show ?thesis
    proof (cases "shapes_match gf rf nz abn n")
      case True
      then have "\<forall>i<Suc n. shapes_match gf rf nz abn i" using all by (auto simp: less_Suc_eq)
      then show ?thesis using st True by auto
    next
      case False
      then show ?thesis using st by auto
    qed
  next
    assume "main_gan_models gf df rf nz abn n = Inl ValueError \<and> (\<exists>i<n. \<not> shapes_match gf rf nz abn i)"
    then show ?thesis by (auto simp: main_gan_models_Suc less_Suc_eq)
  qed
qed

section \<open>Lemmas on the estimator's model function\<close>

lemma make_gan_models_loop_append:
  "make_gan_models_loop sb gf df depth lab nz aug mu lv abn (xs @ ys) ms g =
     (case make_gan_models_loop sb gf df depth lab nz aug mu lv abn xs ms g of
        Inl e \<Rightarrow> Inl e
      | Inr (ms', g') \<Rightarrow> make_gan_models_loop sb gf df depth lab nz aug mu lv abn ys ms' g')"
  by (induction xs arbitrary: ms g) (auto split: sum.splits)

lemma stage_kwargs_Inr:
  assumes "stage_kwargs depth lab nz aug mu lv abn ms i = Inr kw"
  shows "stage_kw kw = i \<and> check_shapes_kw kw = False
     \<and> generator_inputs_kw kw = Closure (get_input ms i nz aug)
     \<and> apply_batch_norm_kw kw = abn \<and> mu_kw kw = mu \<and> logvar_kw kw = lv
     \<and> snd (discriminator_inputs_kw kw) = mu"
  using assms
  by (auto simp: stage_kwargs_def get_generator_input_for_stage_est_def
           split: sum.splits if_splits)

lemma make_gan_models_loop_inv:
  "make_gan_models_loop sb gf df depth lab nz aug mu lv abn [0..<n] [] g = Inr (ms, g') \<Longrightarrow>
     length ms = n \<and>
     (\<forall>i<n. \<exists>kw g1 g2. stage_kwargs depth lab nz aug mu lv abn (take i ms) i = Inr kw
                \<and> sb gf df kw g1 = Inr (ms ! i, g2))"
proof (induction n arbitrary: ms g')
  case 0
  then show ?case by simp
next
  case (Suc n)
  from Suc.prems obtain ms0 g0 where
    prev: "make_gan_models_loop sb gf df depth lab nz aug mu lv abn [0..<n] [] g = Inr (ms0, g0)" and
    last: "make_gan_models_loop sb gf df depth lab nz aug mu lv abn [n] ms0 g0 = Inr (ms, g')"
    by (auto simp: make_gan_models_loop_append split: sum.splits simp del: make_gan_models_loop.simps)
  from last obtain kw m where
    kw: "stage_kwargs depth lab nz aug mu lv abn ms0 n = Inr kw" and
    call: "sb gf df kw g0 = Inr (m, g')" and ms: "ms = ms0 @ [m]"
    by (auto split: sum.splits)
  from Suc.IH [OF prev] have len: "length ms0 = n" and
    ih: "\<forall>i<n. \<exists>kw g1 g2. stage_kwargs depth lab nz aug mu lv abn (take i ms0) i = Inr kw
                \<and> sb gf df kw g1 = Inr (ms0 ! i, g2)" by auto
  have "\<exists>kw g1 g2. stage_kwargs depth lab nz aug mu lv abn (take i ms) i = Inr kw
                \<and> sb gf df kw g1 = Inr (ms ! i, g2)" if "i < Suc n" for i
  proof (cases "i < n")
    case True
    then have "take i ms = take i ms0" "ms ! i = ms0 ! i" using ms len by (simp_all add: nth_append)
    then show ?thesis using ih True by simp
  next
    case False
    then have "i = n" using that by simp
    then have "take i ms = ms0" "ms ! i = m" using ms len by (simp_all add: nth_append)
    then show ?thesis using kw call \<open>i = n\<close> by auto
  qed
  then show ?case using ms len by simp
qed

lemma get_input_result:
  "i \<le> length ms \<Longrightarrow>
   get_input (take i ms) i nz aug () =
     Inr (i = 0, if i = 0 then nz else generator_hidden_code_est (ms ! (i - 1)), aug)"
  by (auto simp: get_input_def py_nth_def Let_def)

lemma make_prediction_gan_model_Suc:
  "make_prediction_gan_model aug (Suc n) bs nd gf emb abn g = Inl TypeError"
  by (simp add: make_prediction_gan_model_def upt_conv_Cons get_generator_input_for_stage_est_def
        split: prod.splits del: upt_Suc)

lemma make_prediction_gan_model_0:
  "make_prediction_gan_model aug 0 bs nd gf emb abn g = Inl IndexError"
  by (simp add: make_prediction_gan_model_def py_last_def split: prod.splits)

section \<open>Lemmas on the variables in the graph\<close>

lemma set_get_variables:
  "set (get_variables sc ns g) = set g \<union> scope_join sc ` set ns"
  unfolding get_variables_def
  by (induction ns arbitrary: g) (auto simp: get_variable_def)

lemma scope_join_nonempty: "sc \<noteq> [] \<Longrightarrow> scope_join sc n = sc @ CHR ''/'' # n"
  by (simp add: scope_join_def)

lemma set_stage_graph:
  "set (stage_graph gf df r inputs s ''Generator'' abn g) =
     set g
     \<union> (\<lambda>l. ''Generator/Generator_stage_'' @ str s @ CHR ''/'' # l)
         ` set (snd (gf inputs (train_final_size s) abn))
     \<union> (\<lambda>l. ''Discriminator_stage_'' @ str s @ CHR ''/'' # l)
         ` (set (snd (df (fst (fst (gf inputs (train_final_size s) abn))) abn))
            \<union> set (snd (df r abn)))"
proof -
  have a: "scope_join (scope_join ''Generator'' (''Generator_stage_'' @ str s)) l
        = ''Generator/Generator_stage_'' @ str s @ CHR ''/'' # l" for l
    by (simp add: scope_join_def)
  have b: "scope_join (''Discriminator_stage_'' @ str s) l
        = ''Discriminator_stage_'' @ str s @ CHR ''/'' # l" for l
    by (simp add: scope_join_def)
  show ?thesis
    unfolding stage_graph_def set_get_variables a b by (auto simp: image_Un)
qed


lemma graph_names_okD:
  "graph_names_ok n g \<Longrightarrow> x \<in> set g \<Longrightarrow>
     prefix ''Generator/'' x
     \<or> (\<exists>j<n. \<exists>l. x = ''Discriminator_stage_'' @ str j @ CHR ''/'' # l)"
  by (fastforce simp: graph_names_ok_def list_all_iff list_ex_iff prefix_def)

lemma graph_names_okI:
  "(\<And>x. x \<in> set g \<Longrightarrow> prefix ''Generator/'' x
       \<or> (\<exists>j<n. \<exists>l. x = ''Discriminator_stage_'' @ str j @ CHR ''/'' # l)) \<Longrightarrow>
   graph_names_ok n g"
  unfolding graph_names_ok_def list_all_iff list_ex_iff
proof
  fix x assume a: "\<And>x. x \<in> set g \<Longrightarrow> prefix ''Generator/'' x
       \<or> (\<exists>j<n. \<exists>l. x = ''Discriminator_stage_'' @ str j @ CHR ''/'' # l)" and x: "x \<in> set g"
  from a [OF x] show "prefix ''Generator/'' x
      \<or> (\<exists>j\<in>set [0..<n]. prefix (''Discriminator_stage_'' @ str j @ ''/'') x)"
  proof
    assume "prefix ''Generator/'' x" then show ?thesis by simp
  next
    assume "\<exists>j<n. \<exists>l. x = ''Discriminator_stage_'' @ str j @ CHR ''/'' # l"
    then obtain j l where "j < n" "x = ''Discriminator_stage_'' @ str j @ CHR ''/'' # l" by blast
    then have "j \<in> set [0..<n]" "prefix (''Discriminator_stage_'' @ str j @ ''/'') x"
      by (auto simp: prefix_def)
    then show ?thesis by blast
  qed
qed

lemma graph_names_ok_stage:
  assumes "graph_names_ok n g"
  shows "graph_names_ok (Suc n) (stage_graph gf df r inputs n ''Generator'' abn g)"
proof (rule graph_names_okI)
  fix x assume "x \<in> set (stage_graph gf df r inputs n ''Generator'' abn g)"
  then consider "x \<in> set g"
    | l where "x = ''Generator/Generator_stage_'' @ str n @ CHR ''/'' # l"
    | l where "x = ''Discriminator_stage_'' @ str n @ CHR ''/'' # l"
    unfolding set_stage_graph by blast
  then show "prefix ''Generator/'' x
       \<or> (\<exists>j<Suc n. \<exists>l. x = ''Discriminator_stage_'' @ str j @ CHR ''/'' # l)"
  proof cases
    case 1
    from graph_names_okD [OF assms this] show ?thesis by (auto simp: less_Suc_eq)
  next
    case 2
    then show ?thesis by simp
  next
    case 3
    then show ?thesis by blast
  qed
qed

lemma discriminator_filter:
  assumes ok: "graph_names_ok (Suc i) g" and x: "x \<in> set (trainable_variables (''Discriminator_stage_'' @ str i) g)"
  shows "\<exists>l. x = ''Discriminator_stage_'' @ str i @ CHR ''/'' # l"
proof -
  from x have xg: "x \<in> set g" and pre: "prefix (''Discriminator_stage_'' @ str i) x"
    by (simp_all add: trainable_variables_def)
  from graph_names_okD [OF ok xg] show ?thesis
  proof
    assume "prefix ''Generator/'' x"
    with pre show ?thesis by (auto simp: prefix_def)
  next
    assume "\<exists>j<Suc i. \<exists>l. x = ''Discriminator_stage_'' @ str j @ CHR ''/'' # l"
    then obtain j l where j: "j \<le> i" and xe: "x = ''Discriminator_stage_'' @ str j @ CHR ''/'' # l"
      by (auto simp: less_Suc_eq_le)
    from pre xe have "prefix (str i) (str j @ CHR ''/'' # l)" by simp
    from str_prefix_of_earlier [OF j this] xe show ?thesis by blast
  qed
qed

lemma discriminator_names_disjoint:
  assumes "x = ''Discriminator_stage_'' @ str i @ CHR ''/'' # a"
    and "x = ''Discriminator_stage_'' @ str j @ CHR ''/'' # b"
  shows "i = j"
proof -
  from assms have "str i @ CHR ''/'' # a = str j @ CHR ''/'' # b" by simp
  then have "str i = str j"
    by (rule append_sep_eq [OF slash_not_in_str slash_not_in_str])
  then show ?thesis by (rule str_inj)
qed

lemma set_stage_graph_mono: "set g \<subseteq> set (stage_graph gf df r inputs s ''Generator'' abn g)"
  unfolding set_stage_graph by blast

section \<open>The small instance builds\<close>

lemma toy_main_3:
  "\<exists>ms g. main_gan_models toy_generator toy_discriminator (get_real_data_for_stage 8) toy_noise
      False 3 = Inr (ms, g)"
proof -
  have "\<forall>i<3. shapes_match toy_generator (get_real_data_for_stage 8) toy_noise False i"
    by (simp add: less_Suc_eq shapes_match_def toy_generator_def get_real_data_for_stage_def
          numeral_3_eq_3 train_final_size_def)
  then show ?thesis
    using main_gan_models_cases [of toy_generator toy_discriminator "get_real_data_for_stage 8"
        toy_noise False 3] by auto
qed

lemma toy_est_2:
  "\<exists>ems g1. make_gan_models toy_stage_builder toy_augment 2 8 64 toy_est_generator
      toy_est_discriminator (Some (LabelList [toy_noise, toy_noise])) toy_embedding False
      TRAIN [] = Inr (ems, g1)"
  by (simp add: make_gan_models_def toy_augment_def upt_rec stage_kwargs_def
        labels_getitem_def py_nth_def Let_def toy_stage_builder_def
        get_generator_input_for_stage_est_def get_input_def toy_est_generator_def py_last_def)

section \<open>Lemmas on the variables recorded in the stage models\<close>

lemma main_gan_models_last_stage:
  assumes "main_gan_models gf df rf nz abn (Suc n) = Inr (ms, g)"
  shows "\<exists>ms0 g0 m inputs. main_gan_models gf df rf nz abn n = Inr (ms0, g0)
           \<and> ms = ms0 @ [m] \<and> length ms0 = n
           \<and> g = stage_graph gf df (rf n) inputs n ''Generator'' abn g0
           \<and> generator_variables m = trainable_variables ''Generator'' g
           \<and> discriminator_variables m = trainable_variables (''Discriminator_stage_'' @ str n) g"
proof -
  from main_gan_models_Suc_Inr [OF assms]
  obtain ms0 g0 m ssc where
    prev: "main_gan_models gf df rf nz abn n = Inr (ms0, g0)" and
    ms: "ms = ms0 @ [m]" and
    ssc: "if n > 0 then ms0 \<noteq> [] \<and> ssc = Some (generator_scope (last ms0)) else ssc = None" and
    gm: "gan_model gf df (rf n) (get_generator_input_for_stage ms0 n nz) n ssc True abn g0
           = Inr (m, g)"
    by blast
  from main_gan_models_inv [OF prev] have len: "length ms0 = n" and
    ih: "\<forall>i<n. stage_ok gf rf nz abn ms0 i" by auto
  have sscG: "get_or_create_gen_super_scope ssc = ''Generator''"
  proof (cases "n > 0")
    case True
    then have "ms0 \<noteq> []" "ssc = Some (generator_scope (last ms0))" using ssc by auto
    moreover have "last ms0 = ms0 ! (n - 1)" using \<open>ms0 \<noteq> []\<close> len by (simp add: last_conv_nth)
    moreover have "stage_ok gf rf nz abn ms0 (n - 1)" using ih True by simp
    ultimately show ?thesis by (simp add: get_or_create_gen_super_scope_def stage_ok_def)
  next
    case False
    then show ?thesis using ssc by (simp add: get_or_create_gen_super_scope_def)
  qed
  from gan_model_Inr [OF gm] sscG obtain inputs where
    "g = stage_graph gf df (rf n) inputs n ''Generator'' abn g0"
    "generator_variables m = trainable_variables ''Generator'' g"
    "discriminator_variables m = trainable_variables (''Discriminator_stage_'' @ str n) g"
    by auto
  with prev ms len show ?thesis by blast
qed

lemma trainable_variables_mono:
  "set g \<subseteq> set g' \<Longrightarrow> set (trainable_variables sc g) \<subseteq> set (trainable_variables sc g')"
  by (auto simp: trainable_variables_def)

lemma main_gan_models_vars:
  "main_gan_models gf df rf nz abn n = Inr (ms, g) \<Longrightarrow>
     graph_names_ok n g
     \<and> (\<forall>i<n. set (generator_variables (ms ! i)) \<subseteq> set (trainable_variables ''Generator'' g))
     \<and> (\<forall>i j. i \<le> j \<and> j < n \<longrightarrow>
           set (generator_variables (ms ! i)) \<subseteq> set (generator_variables (ms ! j)))
     \<and> (\<forall>i<n. \<forall>x\<in>set (discriminator_variables (ms ! i)).
           \<exists>l. x = ''Discriminator_stage_'' @ str i @ CHR ''/'' # l)
     \<and> (0 < n \<longrightarrow> generator_variables (last ms) = trainable_variables ''Generator'' g)"
proof (induction n arbitrary: ms g)
  case 0
  then show ?case by (simp add: main_gan_models_0 graph_names_ok_def)
next
  case (Suc n)
  from main_gan_models_last_stage [OF Suc.prems]
  obtain ms0 g0 m inputs where
    prev: "main_gan_models gf df rf nz abn n = Inr (ms0, g0)" and
    ms: "ms = ms0 @ [m]" and len: "length ms0 = n" and
    g: "g = stage_graph gf df (rf n) inputs n ''Generator'' abn g0" and
    gv: "generator_variables m = trainable_variables ''Generator'' g" and
    dv: "discriminator_variables m = trainable_variables (''Discriminator_stage_'' @ str n) g"
    by blast
  from Suc.IH [OF prev] have
    ok0: "graph_names_ok n g0" and
    sub0: "\<forall>i<n. set (generator_variables (ms0 ! i)) \<subseteq> set (trainable_variables ''Generator'' g0)" and
    chain0: "\<forall>i j. i \<le> j \<and> j < n \<longrightarrow>
           set (generator_variables (ms0 ! i)) \<subseteq> set (generator_variables (ms0 ! j))" and
    dis0: "\<forall>i<n. \<forall>x\<in>set (discriminator_variables (ms0 ! i)).
           \<exists>l. x = ''Discriminator_stage_'' @ str i @ CHR ''/'' # l"
    by auto
  have old: "ms ! i = ms0 ! i" if "i < n" for i using that ms len by (simp add: nth_append)
  have new: "ms ! n = m" using ms len by (simp add: nth_append)
  have ok: "graph_names_ok (Suc n) g" unfolding g using ok0 by (rule graph_names_ok_stage)
  have mono: "set (trainable_variables ''Generator'' g0) \<subseteq> set (trainable_variables ''Generator'' g)"
    unfolding g by (rule trainable_variables_mono) (rule set_stage_graph_mono)
  have sub: "set (generator_variables (ms ! i)) \<subseteq> set (trainable_variables ''Generator'' g)"
    if "i < Suc n" for i
  proof (cases "i < n")
    case True
    then show ?thesis using sub0 mono old by auto
  next
    case False
    then have "i = n" using that by simp
    then show ?thesis using new gv by simp
  qed
  have chain: "set (generator_variables (ms ! i)) \<subseteq> set (generator_variables (ms ! j))"
    if "i \<le> j" "j < Suc n" for i j
  proof (cases "j < n")
    case True
    then show ?thesis using chain0 that old by auto
  next
    case False
    then have "j = n" using that by simp
    then show ?thesis using sub [of i] that new gv by simp
  qed
  have dis: "\<exists>l. x = ''Discriminator_stage_'' @ str i @ CHR ''/'' # l"
    if "i < Suc n" "x \<in> set (discriminator_variables (ms ! i))" for i x
  proof (cases "i < n")
    case True
    then show ?thesis using dis0 that old by auto
  next
    case False
    then have "i = n" using that by simp
    then have "x \<in> set (trainable_variables (''Discriminator_stage_'' @ str n) g)"
      using that new dv by simp
    from discriminator_filter [OF ok this] show ?thesis using \<open>i = n\<close> by simp
  qed
  have lst: "generator_variables (last ms) = trainable_variables ''Generator'' g"
    using ms gv by simp
  from ok sub chain dis lst show ?case by blast
qed

section \<open>Lemmas on the train operations\<close>

lemma bind_e_simps [simp]:
  "bind_e (Inl e) f = Inl e" "bind_e (Inr x) f = f x"
  by (simp_all add: bind_e_def)

lemma snd_get_dis_update_ops [simp]: "snd (get_dis_update_ops kw sc coll) = None"
  by (simp add: get_dis_update_ops_def Let_def)

lemma dis_update_ops_loop_None:
  "\<forall>i\<in>set idx. i < length models \<Longrightarrow>
   dis_update_ops_loop models coll idx None acc =
     Inr (acc @ map (\<lambda>i. fst (get_dis_update_ops None (discriminator_scope (models ! i)) coll)) idx)"
proof (induction idx arbitrary: acc)
  case Nil
  then show ?case by simp
next
  case (Cons i idx)
  then have "i < length models" by simp
  then have "py_nth models i = Inr (models ! i)" by (simp add: py_nth_def)
  moreover obtain u k where g: "get_dis_update_ops None (discriminator_scope (models ! i)) coll = (u, k)"
    by (cases "get_dis_update_ops None (discriminator_scope (models ! i)) coll")
  moreover have "k = None" using g snd_get_dis_update_ops [of None "discriminator_scope (models ! i)" coll] by simp
  ultimately show ?case using Cons by simp
qed

lemma disc_train_ops_loop_result:
  "\<forall>i\<in>set idx. i < length models \<and> i < length losses \<and> i < length uops \<Longrightarrow>
   disc_train_ops_loop models losses opt uops idx acc =
     Inr (acc @ map (\<lambda>i. create_train_op (discriminator_loss (losses ! i)) opt
                          (discriminator_variables (models ! i)) (uops ! i)) idx)"
proof (induction idx arbitrary: acc)
  case Nil
  then show ?case by simp
next
  case (Cons i idx)
  then show ?case by (simp add: py_nth_def)
qed

lemma discriminator_train_ops_result:
  assumes "length models = depth" "length losses = depth"
  shows "discriminator_train_ops depth models losses opt None coll =
     Inr (DiscriminatorTrainOps
            (map (\<lambda>i. create_train_op (discriminator_loss (losses ! i)) opt
                     (discriminator_variables (models ! i))
                     (fst (get_dis_update_ops None (discriminator_scope (models ! i)) coll)))
               [0..<depth]))"
proof -
  let ?u = "map (\<lambda>i. fst (get_dis_update_ops None (discriminator_scope (models ! i)) coll)) [0..<depth]"
  have a: "dis_update_ops_loop models coll [0..<depth] None [] = Inr ?u"
    using dis_update_ops_loop_None [of "[0..<depth]" models coll "[]"] assms by simp
  have b: "disc_train_ops_loop models losses opt ?u [0..<depth] [] =
     Inr (map (\<lambda>i. create_train_op (discriminator_loss (losses ! i)) opt
                          (discriminator_variables (models ! i)) (?u ! i)) [0..<depth])"
    using disc_train_ops_loop_result [of "[0..<depth]" models losses ?u opt "[]"] assms by simp
  have c: "map (\<lambda>i. create_train_op (discriminator_loss (losses ! i)) opt
                          (discriminator_variables (models ! i)) (?u ! i)) [0..<depth]
         = map (\<lambda>i. create_train_op (discriminator_loss (losses ! i)) opt
                     (discriminator_variables (models ! i))
                     (fst (get_dis_update_ops None (discriminator_scope (models ! i)) coll)))
            [0..<depth]"
    by (rule map_cong) auto
  show ?thesis unfolding discriminator_train_ops_def a using b c by simp
qed

lemma before_run_RunTrainOpsHook:
  "before_run (RunTrainOpsHook (OpList xs) n) = replicate n (SessionRun xs)"
  "before_run (RunTrainOpsHook (OpTuple t) n) = replicate n (SessionRun [generator_train_op_of t])"
  by (cases t; simp add: RunTrainOpsHook_def)+

lemma length_get_hooks: "length (get_hooks ts ops) = 2"
  by (cases "discriminator_train_op_field ops") (simp add: get_hooks_def)

lemma train_step_get_hooks:
  "train_step (get_hooks ts ops) ops =
     replicate (discriminator_train_steps ts)
       (SessionRun (discriminator_train_op_of (discriminator_train_op_field ops)))
     @ replicate (generator_train_steps ts)
         (SessionRun [generator_train_op_of (generator_train_op_field ops)])
     @ [global_step_inc_op ops]"
  by (cases "discriminator_train_op_field ops")
     (simp add: train_step_def get_hooks_def before_run_RunTrainOpsHook)

lemma generator_train_op_result:
  "generator_train_op model loss opt None coll =
     GeneratorTrainOp (create_train_op (generator_loss loss) opt (generator_variables model)
        (fst (get_gen_update_ops None (generator_scope model) coll)))"
  by (simp add: generator_train_op_def split: prod.splits)

lemma main_train_ops_result:
  assumes "0 < depth" "length gan_models = depth" "length dis_losses = depth"
  shows "main_train_ops depth gan_models dis_losses gen_loss_tuple gen_opt dis_opt coll =
     Inr \<lparr> generator_train_op_field =
             GeneratorTrainOp
               (create_train_op (generator_loss gen_loss_tuple) gen_opt
                  (generator_variables (last gan_models))
                  (fst (get_gen_update_ops None (generator_scope (last gan_models)) coll))),
           discriminator_train_op_field =
             DiscriminatorTrainOps
               (map (\<lambda>i. create_train_op (discriminator_loss (dis_losses ! i)) dis_opt
                       (discriminator_variables (gan_models ! i))
                       (fst (get_dis_update_ops None (discriminator_scope (gan_models ! i)) coll)))
                  [0..<depth]),
           global_step_inc_op = GlobalStepInc \<rparr>"
proof -
  have "gan_models \<noteq> []" using assms by auto
  then have pl: "py_last gan_models = Inr (last gan_models)"
    by (cases gan_models) (simp_all add: py_last_def)
  have d: "discriminator_train_ops depth gan_models dis_losses dis_opt None coll =
     Inr (DiscriminatorTrainOps
            (map (\<lambda>i. create_train_op (discriminator_loss (dis_losses ! i)) dis_opt
                     (discriminator_variables (gan_models ! i))
                     (fst (get_dis_update_ops None (discriminator_scope (gan_models ! i)) coll)))
               [0..<depth]))"
    by (rule discriminator_train_ops_result) (fact assms)+
  show ?thesis
    unfolding main_train_ops_def pl d bind_e_simps Let_def generator_train_op_result ..
qed

section \<open>Lemmas on the losses\<close>

lemma color_loss_loop_sum:
  "color_loss_loop fns w means covs idx acc =
     acc + (\<Sum>i\<leftarrow>idx. w * mean_squared_error fns (means ! i) (means ! (i + 1))
                     + 5 * w * mean_squared_error fns (covs ! i) (covs ! (i + 1)))"
  by (induction idx arbitrary: acc) (simp_all add: Let_def algebra_simps)

lemma color_loss_value:
  assumes "length models = depth"
  shows "color_loss fns w depth models = Inr (w * color_loss_spec fns w models)"
proof -
  have "(\<Sum>i\<leftarrow>[0..<depth - 1].
          w * mean_squared_error fns
                (map (\<lambda>m. fst (compute_mean_covariance fns (generated_data m))) models ! i)
                (map (\<lambda>m. fst (compute_mean_covariance fns (generated_data m))) models ! (i + 1))
          + 5 * w * mean_squared_error fns
                (map (\<lambda>m. snd (compute_mean_covariance fns (generated_data m))) models ! i)
                (map (\<lambda>m. snd (compute_mean_covariance fns (generated_data m))) models ! (i + 1)))
        = color_loss_spec fns w models"
    unfolding color_loss_spec_def assms
    by (rule arg_cong [where f = sum_list], rule map_cong) (use assms in auto)
  then show ?thesis
    using assms by (simp add: color_loss_def Let_def color_loss_loop_sum)
qed

lemma color_loss_wrong_length:
  "length models \<noteq> depth \<Longrightarrow> color_loss fns w depth models = Inl AssertionError"
  by (auto simp: color_loss_def Let_def)

lemma validate_Some [simp]:
  "validate_aux_loss_weight (Some w) = (if w < 0 then Inl ValueError else Inr (Some w))"
  "validate_aux_loss_weight None = Inr None"
  by (simp_all add: validate_aux_loss_weight_def)

lemma validate_cases:
  "validate_aux_loss_weight w = Inl ValueError \<or> validate_aux_loss_weight w = Inr w"
  by (cases w) auto

lemma use_aux_loss_simps [simp]:
  "use_aux_loss None = False" "use_aux_loss (Some w) = (w > 0)"
  by (simp_all add: use_aux_loss_def)

lemma dis_loss_cases:
  "dis_loss fns cls m gpw miw acgw acdw = Inl ValueError
   \<or> (validate_aux_loss_weight gpw = Inr gpw \<and> validate_aux_loss_weight miw = Inr miw
      \<and> validate_aux_loss_weight acgw = Inr acgw \<and> validate_aux_loss_weight acdw = Inr acdw
      \<and> dis_loss fns cls m gpw miw acgw acdw =
          (if use_aux_loss miw \<and> cls \<noteq> InfoGANModel then Inl ValueError
           else if (use_aux_loss acgw \<or> use_aux_loss acdw) \<and> cls \<noteq> ACGANModel then Inl ValueError
           else Inr (DiscriminatorLoss
              (add_weighted acdw (acgan_discriminator_loss fns m)
                 (add_weighted miw (mutual_information_penalty fns m)
                    (add_weighted gpw (wasserstein_gradient_penalty fns m)
                       (discriminator_loss_fn fns (tensor_pool_adjusted_model fns m))))
               + get_regularization_loss fns (discriminator_scope m)))))"
  using validate_cases [of gpw] validate_cases [of miw] validate_cases [of acgw]
    validate_cases [of acdw]
  by (elim disjE) (simp_all add: dis_loss_def Let_def)

lemma add_weighted_unused [simp]:
  "add_weighted None l acc = acc" "add_weighted (Some 0) l acc = acc"
  by (simp_all add: add_weighted_def)

lemma gen_loss_loop_result:
  "\<forall>i\<in>set idx. i < length models \<Longrightarrow> miw \<in> {None, Some 0} \<Longrightarrow> acgw \<in> {None, Some 0} \<Longrightarrow>
   gen_loss_loop fns models miw acgw idx acc =
     Inr (acc + (\<Sum>i\<leftarrow>idx. generator_loss_fn fns (models ! i)))"
  by (induction idx arbitrary: acc) (auto simp: py_nth_def)

lemma gen_loss_loop_no_NameError:
  "gen_loss_loop fns models miw acgw idx acc \<noteq> Inl NameError"
  by (induction idx arbitrary: acc) (auto simp: py_nth_def)

lemma sum_list_nth_upt:
  "(\<Sum>i\<leftarrow>[0..<length xs]. f (xs ! i)) = (\<Sum>x\<leftarrow>xs. f x)"
proof -
  have "map (\<lambda>i. f (xs ! i)) [0..<length xs] = map f (map (\<lambda>i. xs ! i) [0..<length xs])"
    by simp
  also have "\<dots> = map f xs" by (simp only: map_nth)
  finally show ?thesis by simp
qed

lemma gen_loss_unused_weights:
  assumes "miw \<in> {None, Some 0}" "acgw \<in> {None, Some 0}"
  shows "gen_loss fns c depth models miw acgw =
     bind_e (if c > 0 then color_loss fns c depth models else Inr 0) (\<lambda>color_loss_value.
     bind_e (gen_loss_loop fns models miw acgw [0..<depth] (0 + color_loss_value)) (\<lambda>l.
     bind_e (py_last models) (\<lambda>last_model.
     bind_e (get_regularization_loss_of_scope_object fns (generator_scope last_model))
       (\<lambda>gen_reg_loss.
          Inr (GeneratorLoss (l + gen_reg_loss))))))"
  using assms by (auto simp: gen_loss_def truthy_def)

lemma get_regularization_loss_of_scope_object_cases:
  "get_regularization_loss_of_scope_object fns sc = Inl TypeError
   \<or> get_regularization_loss_of_scope_object fns sc = Inr 0"
  by (simp add: get_regularization_loss_of_scope_object_def)

lemma gen_loss_loop_cases:
  "gen_loss_loop fns models miw acgw idx acc = Inl IndexError
   \<or> (\<exists>x. gen_loss_loop fns models miw acgw idx acc = Inr x)"
  by (induction idx arbitrary: acc) (auto simp: py_nth_def)

lemma color_loss_cases:
  "color_loss fns c depth models = Inl AssertionError
   \<or> (\<exists>x. color_loss fns c depth models = Inr x)"
  by (auto simp: color_loss_def Let_def)

lemma py_last_cases:
  "py_last xs = Inl IndexError \<or> (\<exists>x. py_last xs = Inr x)"
  by (cases xs) (auto simp: py_last_def)

text \<open>
  With both weights unused, \<^verbatim>\<open>gen_loss\<close> on a stack of \<open>depth \<ge> 1\<close> models raises
  \<^verbatim>\<open>TypeError\<close> when the graph has a collection of regularization losses, and otherwise
  returns the colour loss plus the sum of the stages' generator losses.
\<close>

lemma gen_loss_value:
  assumes "miw \<in> {None, Some 0}" "acgw \<in> {None, Some 0}" "0 < depth" "length models = depth"
  shows "gen_loss fns c depth models miw acgw =
     (if regularization_losses_collected fns then Inl TypeError
      else Inr (GeneratorLoss
               ((if c > 0 then c * color_loss_spec fns c models else 0)
                + (\<Sum>m\<leftarrow>models. generator_loss_fn fns m) + 0)))"
proof -
  from assms have len: "length models = depth" and ne: "models \<noteq> []" by auto
  have pl: "py_last models = Inr (last models)"
    using ne by (cases models) (simp_all add: py_last_def)
  have col: "color_loss fns c depth models = Inr (c * color_loss_spec fns c models)"
    using len by (rule color_loss_value)
  have lp: "gen_loss_loop fns models miw acgw [0..<depth] acc =
      Inr (acc + (\<Sum>m\<leftarrow>models. generator_loss_fn fns m))" for acc
    using gen_loss_loop_result [of "[0..<depth]" models miw acgw fns acc] assms
      sum_list_nth_upt [of "generator_loss_fn fns" models] by simp
  show ?thesis
    using assms(1,2)
    by (simp add: gen_loss_unused_weights col lp pl get_regularization_loss_of_scope_object_def)
qed

lemma gen_loss_loop_unused:
  "miw \<in> {None, Some 0} \<Longrightarrow> acgw \<in> {None, Some 0} \<Longrightarrow>
   gen_loss_loop fns models miw acgw idx acc = gen_loss_loop fns models None None idx acc"
proof (induction idx arbitrary: acc)
  case Nil
  then show ?case by simp
next
  case (Cons i idx)
  show ?case
  proof (cases "py_nth models i")
    case (Inl e)
    then show ?thesis by simp
  next
    case (Inr m)
    from Cons.prems have
      "add_weighted acgw (acgan_generator_loss fns m)
         (add_weighted miw (mutual_information_penalty fns m) (acc + generator_loss_fn fns m))
       = acc + generator_loss_fn fns m"
      by auto
    with Inr Cons.IH [OF Cons.prems] show ?thesis by simp
  qed
qed

lemma gen_loss_zero_as_None:
  assumes "miw \<in> {None, Some 0}" "acgw \<in> {None, Some 0}"
  shows "gen_loss fns c depth models miw acgw = gen_loss fns c depth models None None"
proof -
  have n: "(None :: real option) \<in> {None, Some 0}" by simp
  show ?thesis
    unfolding gen_loss_unused_weights [OF assms] gen_loss_unused_weights [OF n n]
      gen_loss_loop_unused [OF assms] ..
qed

lemma gen_loss_unused_no_NameError:
  assumes "miw \<in> {None, Some 0}" "acgw \<in> {None, Some 0}"
  shows "gen_loss fns c depth models miw acgw \<noteq> Inl NameError
       \<and> gen_loss fns c depth models miw acgw \<noteq> Inl ValueError"
proof -
  let ?rest = "\<lambda>x. bind_e (gen_loss_loop fns models miw acgw [0..<depth] (0 + x)) (\<lambda>l.
     bind_e (py_last models) (\<lambda>last_model.
     bind_e (get_regularization_loss_of_scope_object fns (generator_scope last_model))
       (\<lambda>gen_reg_loss. Inr (GeneratorLoss (l + gen_reg_loss)))))"
  have rest: "?rest x \<noteq> Inl NameError \<and> ?rest x \<noteq> Inl ValueError" for x
  proof -
    from gen_loss_loop_cases [of fns models miw acgw "[0..<depth]" "0 + x"] show ?thesis
    proof
      assume "gen_loss_loop fns models miw acgw [0..<depth] (0 + x) = Inl IndexError"
      then show ?thesis by simp
    next
      assume "\<exists>y. gen_loss_loop fns models miw acgw [0..<depth] (0 + x) = Inr y"
      then obtain y where y: "gen_loss_loop fns models miw acgw [0..<depth] (0 + x) = Inr y"
        by blast
      from py_last_cases [of models] show ?thesis
      proof
        assume "py_last models = Inl IndexError"
        with y show ?thesis by simp
      next
        assume "\<exists>m. py_last models = Inr m"
        then obtain m where m: "py_last models = Inr m" by blast
        from get_regularization_loss_of_scope_object_cases [of fns "generator_scope m"]
        show ?thesis using y m by auto
      qed
    qed
  qed
  show ?thesis
  proof (cases "c > 0")
    case True
    from color_loss_cases [of fns c depth models] show ?thesis
    proof
      assume "color_loss fns c depth models = Inl AssertionError"
      then show ?thesis using True by (simp add: gen_loss_unused_weights [OF assms])
    next
      assume "\<exists>x. color_loss fns c depth models = Inr x"
      then obtain x where x: "color_loss fns c depth models = Inr x" by blast
      have "gen_loss fns c depth models miw acgw = ?rest x"
        using True x by (simp add: gen_loss_unused_weights [OF assms])
      with rest [of x] show ?thesis by simp
    qed
  next
    case False
    have "gen_loss fns c depth models miw acgw = ?rest 0"
      using False by (simp add: gen_loss_unused_weights [OF assms])
    with rest [of 0] show ?thesis by simp
  qed
qed

section \<open>The losses of the small instance\<close>

lemma toy_stack_length: "length toy_stack = 2"
  by (simp add: toy_stack_def)

lemma toy_color_loss_spec: "color_loss_spec toy_loss_fns 50 toy_stack = 50"
  by (simp add: color_loss_spec_def toy_loss_fns_def toy_model_def toy_generator_def
        train_final_size_def toy_stack_def)

lemma toy_generator_losses: "(\<Sum>m\<leftarrow>toy_stack. generator_loss_fn toy_loss_fns m) = 2"
  by (simp add: toy_stack_def toy_loss_fns_def)

lemma toy_regularization: "get_regularization_loss toy_loss_fns sc = 0"
  by (simp add: toy_loss_fns_def)

lemma toy_no_regularization_losses: "regularization_losses_collected toy_loss_fns = False"
  by (simp add: toy_loss_fns_def)

section \<open>The variables of the two-stage instance\<close>

text \<open>
  The graph after each stage of the two-stage instance, computed stage by stage, and the
  generator variable lists that the two stage models record.
\<close>

lemma char_of_48: "char_of (48::nat) = CHR ''0''"
  by code_simp
lemma char_of_49: "char_of (49::nat) = CHR ''1''"
  by code_simp

lemma str_0: "str 0 = ''0''"
  by (subst str.simps) (simp add: digit_char_def char_of_48)

lemma str_1: "str 1 = ''1''"
  by (subst str.simps) (simp add: digit_char_def char_of_49)

lemma toy_stage_graph:
  "stage_graph toy_generator toy_discriminator r inputs s ''Generator'' abn g =
     get_variables (''Discriminator_stage_'' @ str s) [''weights'']
       (get_variables (''Discriminator_stage_'' @ str s) [''weights'']
          (get_variables (''Generator/Generator_stage_'' @ str s) [''weights''] g))"
  by (simp add: stage_graph_def toy_generator_def toy_discriminator_def scope_join_def)

lemma toy_graph_1:
  "stage_graph toy_generator toy_discriminator r inputs 0 ''Generator'' abn [] =
     [''Generator/Generator_stage_0/weights'', ''Discriminator_stage_0/weights'']"
  unfolding toy_stage_graph str_0
  by (simp add: get_variables_def get_variable_def scope_join_def)

lemma toy_graph_2:
  "stage_graph toy_generator toy_discriminator r inputs 1 ''Generator'' abn
     [''Generator/Generator_stage_0/weights'', ''Discriminator_stage_0/weights''] =
     [''Generator/Generator_stage_0/weights'', ''Discriminator_stage_0/weights'',
      ''Generator/Generator_stage_1/weights'', ''Discriminator_stage_1/weights'']"
  unfolding toy_stage_graph str_1
  by (simp add: get_variables_def get_variable_def scope_join_def)

lemma toy_main_2:
  "\<exists>m0 m1 g. main_gan_models toy_generator toy_discriminator (get_real_data_for_stage 8)
       toy_noise False 2 = Inr ([m0, m1], g)
     \<and> generator_variables m0 = [''Generator/Generator_stage_0/weights'']
     \<and> generator_variables m1 =
         [''Generator/Generator_stage_0/weights'', ''Generator/Generator_stage_1/weights'']"
proof -
  have "\<forall>i<Suc (Suc 0). shapes_match toy_generator (get_real_data_for_stage 8) toy_noise False i"
    by (simp add: less_Suc_eq shapes_match_def toy_generator_def get_real_data_for_stage_def
          train_final_size_def Let_def)
  then obtain ms g where ok: "main_gan_models toy_generator toy_discriminator
      (get_real_data_for_stage 8) toy_noise False (Suc (Suc 0)) = Inr (ms, g)"
    using main_gan_models_cases [of toy_generator toy_discriminator "get_real_data_for_stage 8"
        toy_noise False "Suc (Suc 0)"] by auto
  from main_gan_models_last_stage [OF ok]
  obtain ms0 g0 m1 inputs1 where
    prev: "main_gan_models toy_generator toy_discriminator (get_real_data_for_stage 8)
      toy_noise False (Suc 0) = Inr (ms0, g0)" and
    ms: "ms = ms0 @ [m1]" and
    g: "g = stage_graph toy_generator toy_discriminator (get_real_data_for_stage 8 (Suc 0))
           inputs1 (Suc 0) ''Generator'' False g0" and
    gv1: "generator_variables m1 = trainable_variables ''Generator'' g"
    by blast
  from main_gan_models_last_stage [OF prev]
  obtain ms00 g00 m0 inputs0 where
    prev0: "main_gan_models toy_generator toy_discriminator (get_real_data_for_stage 8)
      toy_noise False 0 = Inr (ms00, g00)" and
    ms0: "ms0 = ms00 @ [m0]" and
    g0: "g0 = stage_graph toy_generator toy_discriminator (get_real_data_for_stage 8 0)
           inputs0 0 ''Generator'' False g00" and
    gv0: "generator_variables m0 = trainable_variables ''Generator'' g0"
    by blast
  from prev0 have e: "ms00 = []" "g00 = []" by (simp_all add: main_gan_models_0)
  have g0v: "g0 = [''Generator/Generator_stage_0/weights'', ''Discriminator_stage_0/weights'']"
    unfolding g0 e by (rule toy_graph_1)
  have gv: "g = [''Generator/Generator_stage_0/weights'', ''Discriminator_stage_0/weights'',
      ''Generator/Generator_stage_1/weights'', ''Discriminator_stage_1/weights'']"
    unfolding g g0v using toy_graph_2 by simp
  have a: "generator_variables m0 = [''Generator/Generator_stage_0/weights'']"
    unfolding gv0 g0v by (simp add: trainable_variables_def)
  have b: "generator_variables m1 =
         [''Generator/Generator_stage_0/weights'', ''Generator/Generator_stage_1/weights'']"
    unfolding gv1 gv by (simp add: trainable_variables_def)
  have "ms = [m0, m1]" using ms ms0 e by simp
  with ok a b show ?thesis by (auto simp: numeral_2_eq_2)
qed

section \<open>C1: one model per stage, numbered in order\<close>

text \<open>
  C1. Claimed for every build mode: building the stack yields exactly \<open>stack_depth\<close>
  stage models whose stage fields are 0, 1, ..., \<open>stack_depth - 1\<close>.
  This holds where a stack is built. In \<^verbatim>\<open>train.py\<close>, when the shapes of every stage
  match, the build returns, and whenever it returns the list has \<open>depth\<close> models with
  \<open>map stage ms = [0..<depth]\<close>. In the estimator's training and evaluation modes,
  whenever \<^verbatim>\<open>_make_gan_models\<close> returns, the list has \<open>depth\<close> models and the model at
  position \<open>i\<close> is what the stage builder returned for the keyword arguments of stage
  \<open>i\<close>, built from the models before it, with \<^verbatim>\<open>stage\<close> equal to \<open>i\<close>.
  It does not hold in prediction mode, which is not a build of a stack: see the
  counterexample below.
\<close>

theorem stack_has_one_model_per_stage:
  "((\<forall>i<depth. shapes_match gf rf nz abn i) \<longrightarrow>
      (\<exists>ms g. main_gan_models gf df rf nz abn depth = Inr (ms, g)))
   \<and> (main_gan_models gf df rf nz abn depth = Inr (ms, g) \<longrightarrow>
      length ms = depth \<and> map stage ms = [0..<depth])
   \<and> (make_gan_models sb aug depth bs nd gf0 df0 lab emb abn md g0 = Inr (ems, g1) \<longrightarrow>
      length ems = depth \<and>
      (\<forall>i<depth. \<exists>kw g2 g3.
          stage_kwargs depth lab (random_normal bs nd) (fst (aug emb)) (fst (snd (aug emb)))
            (snd (snd (aug emb))) abn (take i ems) i = Inr kw
          \<and> stage_kw kw = i
          \<and> sb (gf0 md) (df0 md) kw g2 = Inr (ems ! i, g3)))"
proof (intro conjI impI)
  assume "\<forall>i<depth. shapes_match gf rf nz abn i"
  then show "\<exists>ms g. main_gan_models gf df rf nz abn depth = Inr (ms, g)"
    using main_gan_models_cases [of gf df rf nz abn depth] by auto
next
  assume ok: "main_gan_models gf df rf nz abn depth = Inr (ms, g)"
  from main_gan_models_inv [OF ok]
  show "length ms = depth" by simp
  from main_gan_models_inv [OF ok]
  have "length ms = depth" "\<forall>i<depth. stage (ms ! i) = i" by (auto simp: stage_ok_def)
  then show "map stage ms = [0..<depth]"
    by (intro nth_equalityI) auto
next
  assume est: "make_gan_models sb aug depth bs nd gf0 df0 lab emb abn md g0 = Inr (ems, g1)"
  then have loop: "make_gan_models_loop sb (gf0 md) (df0 md) depth lab (random_normal bs nd)
      (fst (aug emb)) (fst (snd (aug emb))) (snd (snd (aug emb))) abn [0..<depth] [] g0 = Inr (ems, g1)"
    by (simp add: make_gan_models_def Let_def split: prod.splits)
  from make_gan_models_loop_inv [OF loop] show "length ems = depth" by simp
  show "\<forall>i<depth. \<exists>kw g2 g3.
          stage_kwargs depth lab (random_normal bs nd) (fst (aug emb)) (fst (snd (aug emb)))
            (snd (snd (aug emb))) abn (take i ems) i = Inr kw
          \<and> stage_kw kw = i
          \<and> sb (gf0 md) (df0 md) kw g2 = Inr (ems ! i, g3)"
  proof (intro allI impI)
    fix i assume "i < depth"
    with make_gan_models_loop_inv [OF loop] obtain kw g2 g3 where
      kw: "stage_kwargs depth lab (random_normal bs nd) (fst (aug emb)) (fst (snd (aug emb)))
            (snd (snd (aug emb))) abn (take i ems) i = Inr kw" and
      call: "sb (gf0 md) (df0 md) kw g2 = Inr (ems ! i, g3)" by blast
    from stage_kwargs_Inr [OF kw] have "stage_kw kw = i" by simp
    with kw call show "\<exists>kw g2 g3.
          stage_kwargs depth lab (random_normal bs nd) (fst (aug emb)) (fst (snd (aug emb)))
            (snd (snd (aug emb))) abn (take i ems) i = Inr kw
          \<and> stage_kw kw = i
          \<and> sb (gf0 md) (df0 md) kw g2 = Inr (ems ! i, g3)" by blast
  qed
qed

theorem stack_has_one_model_per_stage_witness:
  "\<exists>ms g ems g1.
     main_gan_models toy_generator toy_discriminator (get_real_data_for_stage 8) toy_noise False 3
       = Inr (ms, g)
     \<and> length ms = 3 \<and> map stage ms = [0, 1, 2]
     \<and> make_gan_models toy_stage_builder toy_augment 2 8 64 toy_est_generator
          toy_est_discriminator (Some (LabelList [toy_noise, toy_noise])) toy_embedding False
          TRAIN [] = Inr (ems, g1)
     \<and> length ems = 2"
proof -
  have h: "\<forall>i<3. shapes_match toy_generator (get_real_data_for_stage 8) toy_noise False i"
    by (simp add: less_Suc_eq shapes_match_def toy_generator_def get_real_data_for_stage_def
          numeral_3_eq_3 train_final_size_def)
  from stack_has_one_model_per_stage [of 3 toy_generator "get_real_data_for_stage 8" toy_noise
      False toy_discriminator] h
  obtain ms g where ok: "main_gan_models toy_generator toy_discriminator
      (get_real_data_for_stage 8) toy_noise False 3 = Inr (ms, g)" by blast
  have "\<exists>ems g1. make_gan_models toy_stage_builder toy_augment 2 8 64 toy_est_generator
      toy_est_discriminator (Some (LabelList [toy_noise, toy_noise])) toy_embedding False
      TRAIN [] = Inr (ems, g1)"
    by (simp add: make_gan_models_def toy_augment_def upt_rec stage_kwargs_def
          labels_getitem_def py_nth_def Let_def toy_stage_builder_def
          get_generator_input_for_stage_est_def get_input_def toy_est_generator_def py_last_def)
  then obtain ems g1 where est: "make_gan_models toy_stage_builder toy_augment 2 8 64
      toy_est_generator toy_est_discriminator (Some (LabelList [toy_noise, toy_noise]))
      toy_embedding False TRAIN [] = Inr (ems, g1)" by blast
  from stack_has_one_model_per_stage [where depth = 3 and gf = toy_generator
      and rf = "get_real_data_for_stage 8" and nz = toy_noise and abn = False
      and df = toy_discriminator and ms = ms and g = g] ok
  have a: "length ms = 3 \<and> map stage ms = [0..<3]" by blast
  from stack_has_one_model_per_stage [where depth = 2 and sb = toy_stage_builder
      and aug = toy_augment and bs = 8 and nd = 64 and ?gf0.0 = toy_est_generator
      and ?df0.0 = toy_est_discriminator and lab = "Some (LabelList [toy_noise, toy_noise])"
      and emb = toy_embedding and abn = False and md = TRAIN and ?g0.0 = "[]"
      and ems = ems and ?g1.0 = g1] est
  have b: "length ems = 2" by blast
  have "[0..<3] = [0, 1, 2::nat]" by (simp add: upt_rec)
  with a b ok est show ?thesis by auto
qed

text \<open>
  In prediction mode with a stack depth of 2 and no labels, the model function does not
  produce two stage models: it raises \<^verbatim>\<open>TypeError\<close>.
\<close>

theorem prediction_stack_counterexample:
  "gan_model_fn toy_stage_builder toy_augment 2 8 64 toy_embedding None PREDICT
     toy_est_generator toy_est_discriminator False [] = Inl TypeError"
  by (simp add: gan_model_fn_def numeral_2_eq_2 make_prediction_gan_model_Suc)

section \<open>C2: the generator input of each stage\<close>

text \<open>
  C2. The generator input of stage 0 is the noise sample (with the conditioning where
  there is one), and the input of every stage \<open>i > 0\<close> contains the hidden code of stage
  \<open>i - 1\<close> together with the noise or the conditioning.
  In \<^verbatim>\<open>train.py\<close> the recorded \<^verbatim>\<open>generator_inputs\<close> of stage 0 is the noise tensor
  and that of stage \<open>i > 0\<close> is the list of the hidden code of stage \<open>i - 1\<close> and the
  noise. In the estimator, the input closure handed to the stage builder for stage \<open>i\<close>
  returns, when called, the triple of the first-stage flag, the noise sample (stage 0) or
  the hidden code of the model at position \<open>i - 1\<close> (later stages), and the augmented
  conditioning.
\<close>

theorem generator_input_of_each_stage:
  "(main_gan_models gf df rf nz abn depth = Inr (ms, g) \<longrightarrow>
      (\<forall>i<depth. generator_inputs (ms ! i) =
          (if i = 0 then OneTensor nz
           else TensorList [generator_hidden_code (ms ! (i - 1)), nz])))
   \<and> (make_gan_models sb aug depth bs nd gf0 df0 lab emb abn md g0 = Inr (ems, g1) \<longrightarrow>
      (\<forall>i<depth. \<exists>kw f g2 g3.
          stage_kwargs depth lab (random_normal bs nd) (fst (aug emb)) (fst (snd (aug emb)))
            (snd (snd (aug emb))) abn (take i ems) i = Inr kw
          \<and> sb (gf0 md) (df0 md) kw g2 = Inr (ems ! i, g3)
          \<and> generator_inputs_kw kw = Closure f
          \<and> f () = Inr (i = 0,
                        if i = 0 then random_normal bs nd
                        else generator_hidden_code_est (ems ! (i - 1)),
                        fst (aug emb))))"
proof (intro conjI impI)
  assume ok: "main_gan_models gf df rf nz abn depth = Inr (ms, g)"
  from main_gan_models_inv [OF ok]
  show "\<forall>i<depth. generator_inputs (ms ! i) =
          (if i = 0 then OneTensor nz
           else TensorList [generator_hidden_code (ms ! (i - 1)), nz])"
    by (simp add: stage_ok_def)
next
  assume est: "make_gan_models sb aug depth bs nd gf0 df0 lab emb abn md g0 = Inr (ems, g1)"
  then have loop: "make_gan_models_loop sb (gf0 md) (df0 md) depth lab (random_normal bs nd)
      (fst (aug emb)) (fst (snd (aug emb))) (snd (snd (aug emb))) abn [0..<depth] [] g0 = Inr (ems, g1)"
    by (simp add: make_gan_models_def Let_def split: prod.splits)
  from make_gan_models_loop_inv [OF loop] have len: "length ems = depth" by simp
  show "\<forall>i<depth. \<exists>kw f g2 g3.
          stage_kwargs depth lab (random_normal bs nd) (fst (aug emb)) (fst (snd (aug emb)))
            (snd (snd (aug emb))) abn (take i ems) i = Inr kw
          \<and> sb (gf0 md) (df0 md) kw g2 = Inr (ems ! i, g3)
          \<and> generator_inputs_kw kw = Closure f
          \<and> f () = Inr (i = 0,
                        if i = 0 then random_normal bs nd
                        else generator_hidden_code_est (ems ! (i - 1)),
                        fst (aug emb))"
  proof (intro allI impI)
    fix i assume i: "i < depth"
    with make_gan_models_loop_inv [OF loop] obtain kw g2 g3 where
      kw: "stage_kwargs depth lab (random_normal bs nd) (fst (aug emb)) (fst (snd (aug emb)))
            (snd (snd (aug emb))) abn (take i ems) i = Inr kw" and
      call: "sb (gf0 md) (df0 md) kw g2 = Inr (ems ! i, g3)" by blast
    from stage_kwargs_Inr [OF kw]
    have cl: "generator_inputs_kw kw =
        Closure (get_input (take i ems) i (random_normal bs nd) (fst (aug emb)))" by simp
    have "i \<le> length ems" using i len by simp
    from get_input_result [OF this]
    have res: "get_input (take i ems) i (random_normal bs nd) (fst (aug emb)) () =
        Inr (i = 0,
             if i = 0 then random_normal bs nd else generator_hidden_code_est (ems ! (i - 1)),
             fst (aug emb))" .
    from kw call cl res
    show "\<exists>kw f g2 g3.
          stage_kwargs depth lab (random_normal bs nd) (fst (aug emb)) (fst (snd (aug emb)))
            (snd (snd (aug emb))) abn (take i ems) i = Inr kw
          \<and> sb (gf0 md) (df0 md) kw g2 = Inr (ems ! i, g3)
          \<and> generator_inputs_kw kw = Closure f
          \<and> f () = Inr (i = 0,
                        if i = 0 then random_normal bs nd
                        else generator_hidden_code_est (ems ! (i - 1)),
                        fst (aug emb))" by blast
  qed
qed

theorem generator_input_of_each_stage_witness:
  "\<exists>ms g ems g1.
     main_gan_models toy_generator toy_discriminator (get_real_data_for_stage 8) toy_noise False 3
       = Inr (ms, g)
     \<and> generator_inputs (ms ! 0) = OneTensor toy_noise
     \<and> generator_inputs (ms ! 1) = TensorList [generator_hidden_code (ms ! 0), toy_noise]
     \<and> generator_inputs (ms ! 2) = TensorList [generator_hidden_code (ms ! 1), toy_noise]
     \<and> make_gan_models toy_stage_builder toy_augment 2 8 64 toy_est_generator
          toy_est_discriminator (Some (LabelList [toy_noise, toy_noise])) toy_embedding False
          TRAIN [] = Inr (ems, g1)
     \<and> (\<exists>kw f g2 g3.
          stage_kwargs 2 (Some (LabelList [toy_noise, toy_noise])) (random_normal 8 64)
            (fst (toy_augment toy_embedding)) (fst (snd (toy_augment toy_embedding)))
            (snd (snd (toy_augment toy_embedding))) False (take 1 ems) 1 = Inr kw
          \<and> toy_stage_builder (toy_est_generator TRAIN) (toy_est_discriminator TRAIN) kw g2
              = Inr (ems ! 1, g3)
          \<and> generator_inputs_kw kw = Closure f
          \<and> f () = Inr (False, generator_hidden_code_est (ems ! 0),
                         fst (toy_augment toy_embedding)))"
proof -
  from toy_main_3 obtain ms g where ok: "main_gan_models toy_generator toy_discriminator
      (get_real_data_for_stage 8) toy_noise False 3 = Inr (ms, g)" by blast
  from toy_est_2 obtain ems g1 where est: "make_gan_models toy_stage_builder toy_augment 2 8 64
      toy_est_generator toy_est_discriminator (Some (LabelList [toy_noise, toy_noise]))
      toy_embedding False TRAIN [] = Inr (ems, g1)" by blast
  from generator_input_of_each_stage [where depth = 3 and gf = toy_generator
      and rf = "get_real_data_for_stage 8" and nz = toy_noise and abn = False
      and df = toy_discriminator and ms = ms and g = g] ok
  have a: "\<forall>i<3. generator_inputs (ms ! i) =
          (if i = 0 then OneTensor toy_noise
           else TensorList [generator_hidden_code (ms ! (i - 1)), toy_noise])" by blast
  have a0: "generator_inputs (ms ! 0) = OneTensor toy_noise" using a by simp
  have a1: "generator_inputs (ms ! 1) = TensorList [generator_hidden_code (ms ! 0), toy_noise]"
    using a [rule_format, of 1] by simp
  have a2: "generator_inputs (ms ! 2) = TensorList [generator_hidden_code (ms ! 1), toy_noise]"
    using a [rule_format, of 2] by simp
  from generator_input_of_each_stage [where depth = 2 and sb = toy_stage_builder
      and aug = toy_augment and bs = 8 and nd = 64 and ?gf0.0 = toy_est_generator
      and ?df0.0 = toy_est_discriminator and lab = "Some (LabelList [toy_noise, toy_noise])"
      and emb = toy_embedding and abn = False and md = TRAIN and ?g0.0 = "[]"
      and ems = ems and ?g1.0 = g1] est
  have b: "\<forall>i<2. \<exists>kw f g2 g3.
          stage_kwargs 2 (Some (LabelList [toy_noise, toy_noise])) (random_normal 8 64)
            (fst (toy_augment toy_embedding)) (fst (snd (toy_augment toy_embedding)))
            (snd (snd (toy_augment toy_embedding))) False (take i ems) i = Inr kw
          \<and> toy_stage_builder (toy_est_generator TRAIN) (toy_est_discriminator TRAIN) kw g2
              = Inr (ems ! i, g3)
          \<and> generator_inputs_kw kw = Closure f
          \<and> f () = Inr (i = 0,
                        if i = 0 then random_normal 8 64
                        else generator_hidden_code_est (ems ! (i - 1)),
                        fst (toy_augment toy_embedding))" by blast
  have b1: "\<exists>kw f g2 g3.
          stage_kwargs 2 (Some (LabelList [toy_noise, toy_noise])) (random_normal 8 64)
            (fst (toy_augment toy_embedding)) (fst (snd (toy_augment toy_embedding)))
            (snd (snd (toy_augment toy_embedding))) False (take 1 ems) 1 = Inr kw
          \<and> toy_stage_builder (toy_est_generator TRAIN) (toy_est_discriminator TRAIN) kw g2
              = Inr (ems ! 1, g3)
          \<and> generator_inputs_kw kw = Closure f
          \<and> f () = Inr (False, generator_hidden_code_est (ems ! 0),
                         fst (toy_augment toy_embedding))"
    using b [rule_format, of 1] by simp
  from ok a0 a1 a2 est b1 show ?thesis by blast
qed

section \<open>C3: the variables recorded in the stack\<close>

text \<open>
  C3. In every training-mode stack, the generator parameter set recorded in every stage
  model is the same set, and the discriminator parameter sets of any two distinct stages
  are disjoint.
  \<^verbatim>\<open>gan_model\<close> reads \<^verbatim>\<open>tf.trainable_variables(generator_super_scope.name)\<close> when
  the stage is built, so the list recorded at stage \<open>i\<close> holds the generator variables
  that exist at that moment, those of the stages \<open>0, ..., i\<close>. What holds of every stack
  that \<^verbatim>\<open>main\<close> builds: every stage model records the super scope \<^verbatim>\<open>Generator\<close> and
  its own discriminator scope; the generator variables recorded at a stage are among those
  recorded at every later stage; the last stage model records all generator variables of
  the final graph (it is the model \<^verbatim>\<open>main\<close> hands to \<^verbatim>\<open>generator_train_op\<close>); and the
  discriminator variables of two distinct stages are disjoint.
\<close>

theorem variables_recorded_in_the_stack:
  "main_gan_models gf df rf nz abn depth = Inr (ms, g) \<longrightarrow>
     (\<forall>i<depth. generator_scope (ms ! i) = ''Generator''
                \<and> discriminator_scope (ms ! i) = ''Discriminator_stage_'' @ str i)
     \<and> (\<forall>i j. i \<le> j \<and> j < depth \<longrightarrow>
           set (generator_variables (ms ! i)) \<subseteq> set (generator_variables (ms ! j)))
     \<and> (0 < depth \<longrightarrow> generator_variables (last ms) = trainable_variables ''Generator'' g)
     \<and> (\<forall>i j. i < depth \<and> j < depth \<and> i \<noteq> j \<longrightarrow>
           set (discriminator_variables (ms ! i)) \<inter> set (discriminator_variables (ms ! j)) = {})"
proof
  assume ok: "main_gan_models gf df rf nz abn depth = Inr (ms, g)"
  from main_gan_models_inv [OF ok]
  have sc: "\<forall>i<depth. generator_scope (ms ! i) = ''Generator''
                \<and> discriminator_scope (ms ! i) = ''Discriminator_stage_'' @ str i"
    by (simp add: stage_ok_def)
  from main_gan_models_vars [OF ok] have
    chain: "\<forall>i j. i \<le> j \<and> j < depth \<longrightarrow>
           set (generator_variables (ms ! i)) \<subseteq> set (generator_variables (ms ! j))" and
    dis: "\<forall>i<depth. \<forall>x\<in>set (discriminator_variables (ms ! i)).
           \<exists>l. x = ''Discriminator_stage_'' @ str i @ CHR ''/'' # l" and
    lst: "0 < depth \<longrightarrow> generator_variables (last ms) = trainable_variables ''Generator'' g"
    by blast+
  have disj: "set (discriminator_variables (ms ! i)) \<inter> set (discriminator_variables (ms ! j)) = {}"
    if "i < depth" "j < depth" "i \<noteq> j" for i j
  proof (rule ccontr)
    assume "set (discriminator_variables (ms ! i)) \<inter> set (discriminator_variables (ms ! j)) \<noteq> {}"
    then obtain x where xi: "x \<in> set (discriminator_variables (ms ! i))"
      and xj: "x \<in> set (discriminator_variables (ms ! j))" by blast
    from dis that(1) xi obtain a where a: "x = ''Discriminator_stage_'' @ str i @ CHR ''/'' # a"
      by blast
    from dis that(2) xj obtain b where b: "x = ''Discriminator_stage_'' @ str j @ CHR ''/'' # b"
      by blast
    from discriminator_names_disjoint [OF a b] that(3) show False by simp
  qed
  from sc chain lst disj
  show "(\<forall>i<depth. generator_scope (ms ! i) = ''Generator''
                \<and> discriminator_scope (ms ! i) = ''Discriminator_stage_'' @ str i)
     \<and> (\<forall>i j. i \<le> j \<and> j < depth \<longrightarrow>
           set (generator_variables (ms ! i)) \<subseteq> set (generator_variables (ms ! j)))
     \<and> (0 < depth \<longrightarrow> generator_variables (last ms) = trainable_variables ''Generator'' g)
     \<and> (\<forall>i j. i < depth \<and> j < depth \<and> i \<noteq> j \<longrightarrow>
           set (discriminator_variables (ms ! i)) \<inter> set (discriminator_variables (ms ! j)) = {})"
    by blast
qed

text \<open>
  The theorem at three stages of the small instance: the build returns, the first and the
  last model record the scope \<^verbatim>\<open>Generator\<close>, the first model's generator variables are
  among the last model's, which are all of the graph's, and the discriminator variables of
  the first and the last stage are disjoint.
\<close>

theorem variables_recorded_in_the_stack_witness:
  "\<exists>ms g. main_gan_models toy_generator toy_discriminator (get_real_data_for_stage 8) toy_noise
        False 3 = Inr (ms, g)
     \<and> generator_scope (ms ! 0) = ''Generator'' \<and> generator_scope (ms ! 2) = ''Generator''
     \<and> set (generator_variables (ms ! 0)) \<subseteq> set (generator_variables (ms ! 2))
     \<and> generator_variables (last ms) = trainable_variables ''Generator'' g
     \<and> set (discriminator_variables (ms ! 0)) \<inter> set (discriminator_variables (ms ! 2)) = {}"
proof -
  from toy_main_3 obtain ms g where ok: "main_gan_models toy_generator toy_discriminator
      (get_real_data_for_stage 8) toy_noise False 3 = Inr (ms, g)" by blast
  from variables_recorded_in_the_stack [where depth = 3 and gf = toy_generator
      and rf = "get_real_data_for_stage 8" and nz = toy_noise and abn = False
      and df = toy_discriminator and ms = ms and g = g] ok
  have t: "(\<forall>i<3. generator_scope (ms ! i) = ''Generator''
                \<and> discriminator_scope (ms ! i) = ''Discriminator_stage_'' @ str i)"
     "(\<forall>i j. i \<le> j \<and> j < 3 \<longrightarrow>
           set (generator_variables (ms ! i)) \<subseteq> set (generator_variables (ms ! j)))"
     "generator_variables (last ms) = trainable_variables ''Generator'' g"
     "(\<forall>i j. i < 3 \<and> j < 3 \<and> i \<noteq> j \<longrightarrow>
           set (discriminator_variables (ms ! i)) \<inter> set (discriminator_variables (ms ! j)) = {})"
    by simp_all
  have a: "generator_scope (ms ! 0) = ''Generator''" "generator_scope (ms ! 2) = ''Generator''"
    using t(1) by simp_all
  have b: "set (generator_variables (ms ! 0)) \<subseteq> set (generator_variables (ms ! 2))"
    using t(2) [rule_format, of 0 2] by simp
  have c: "set (discriminator_variables (ms ! 0)) \<inter> set (discriminator_variables (ms ! 2)) = {}"
    using t(4) [rule_format, of 0 2] by simp
  from ok a b t(3) c show ?thesis by blast
qed

text \<open>
  The generator variable lists are not the same at every stage: in the two-stage instance
  the first model records one generator variable and the second records two.
\<close>

theorem generator_variables_differ_counterexample:
  "\<not> isl (main_gan_models toy_generator toy_discriminator (get_real_data_for_stage 8)
             toy_noise False 2)
   \<and> map generator_variables
        (fst (projr (main_gan_models toy_generator toy_discriminator (get_real_data_for_stage 8)
                       toy_noise False 2)))
      = [[''Generator/Generator_stage_0/weights''],
         [''Generator/Generator_stage_0/weights'', ''Generator/Generator_stage_1/weights'']]"
proof -
  from toy_main_2 obtain m0 m1 g where
    "main_gan_models toy_generator toy_discriminator (get_real_data_for_stage 8)
       toy_noise False 2 = Inr ([m0, m1], g)"
    "generator_variables m0 = [''Generator/Generator_stage_0/weights'']"
    "generator_variables m1 =
         [''Generator/Generator_stage_0/weights'', ''Generator/Generator_stage_1/weights'']"
    by blast
  then show ?thesis by simp
qed

section \<open>C4: the order of one training step\<close>

text \<open>
  C4. Claimed: for every stack depth of at least one, one training step executes the
  discriminator train operations one per stage, in stage order, each the configured
  number of times, then the generator train operation the configured number of times,
  then the global step increment.
  \<^verbatim>\<open>main\<close> makes one discriminator operation per stage, each training that stage's
  discriminator variables against that stage's loss, and one generator operation for the
  whole stack. But \<^verbatim>\<open>get_hooks\<close>, whose comment describes its argument as one generator
  operation and a list of discriminator operations, iterates the \<^verbatim>\<open>DiscriminatorTrainOps\<close>
  tuple that wraps the list: it makes two hooks whatever the depth, and the first runs
  the whole list of discriminator operations in one call of \<^verbatim>\<open>session.run\<close>. One step
  is that call the configured number of times, then the call that runs the generator
  operation the configured number of times, then the global step increment. The stages'
  operations are not run one after the other.
\<close>

theorem training_step_runs_the_stages_together:
  "(0 < depth \<and> length gan_models = depth \<and> length dis_losses = depth \<longrightarrow>
     (\<exists>ds gop. main_train_ops depth gan_models dis_losses gen_loss_tuple gen_opt dis_opt coll =
           Inr \<lparr> generator_train_op_field = GeneratorTrainOp gop,
                 discriminator_train_op_field = DiscriminatorTrainOps ds,
                 global_step_inc_op = GlobalStepInc \<rparr>
        \<and> length ds = depth
        \<and> (\<forall>i<depth. total_loss (ds ! i) = discriminator_loss (dis_losses ! i)
                    \<and> variables_to_train (ds ! i) = discriminator_variables (gan_models ! i))
        \<and> total_loss gop = generator_loss gen_loss_tuple
        \<and> variables_to_train gop = generator_variables (last gan_models)))
   \<and> length (get_hooks ts ops) = 2
   \<and> main_train_step ts ops =
       replicate (discriminator_train_steps ts)
         (SessionRun (discriminator_train_op_of (discriminator_train_op_field ops)))
       @ replicate (generator_train_steps ts)
           (SessionRun [generator_train_op_of (generator_train_op_field ops)])
       @ [global_step_inc_op ops]
   \<and> main_train_step default_train_steps ops =
       [SessionRun (discriminator_train_op_of (discriminator_train_op_field ops)),
        SessionRun [generator_train_op_of (generator_train_op_field ops)],
        global_step_inc_op ops]"
proof (intro conjI impI)
  assume h: "0 < depth \<and> length gan_models = depth \<and> length dis_losses = depth"
  let ?d = "map (\<lambda>i. create_train_op (discriminator_loss (dis_losses ! i)) dis_opt
                     (discriminator_variables (gan_models ! i))
                     (fst (get_dis_update_ops None (discriminator_scope (gan_models ! i)) coll)))
            [0..<depth]"
  let ?g = "create_train_op (generator_loss gen_loss_tuple) gen_opt
              (generator_variables (last gan_models))
              (fst (get_gen_update_ops None (generator_scope (last gan_models)) coll))"
  have eq: "main_train_ops depth gan_models dis_losses gen_loss_tuple gen_opt dis_opt coll =
      Inr \<lparr> generator_train_op_field = GeneratorTrainOp ?g,
            discriminator_train_op_field = DiscriminatorTrainOps ?d,
            global_step_inc_op = GlobalStepInc \<rparr>"
    using h by (intro main_train_ops_result) simp_all
  have gl: "total_loss ?g = generator_loss gen_loss_tuple"
    by (simp add: create_train_op_def)
  have gv: "variables_to_train ?g = generator_variables (last gan_models)"
    by (simp add: create_train_op_def)
  have dl: "\<forall>i<depth. total_loss (?d ! i) = discriminator_loss (dis_losses ! i)
                    \<and> variables_to_train (?d ! i) = discriminator_variables (gan_models ! i)"
    by (simp add: create_train_op_def)
  have len: "length ?d = depth" by simp
  show "\<exists>ds gop. main_train_ops depth gan_models dis_losses gen_loss_tuple gen_opt dis_opt coll =
           Inr \<lparr> generator_train_op_field = GeneratorTrainOp gop,
                 discriminator_train_op_field = DiscriminatorTrainOps ds,
                 global_step_inc_op = GlobalStepInc \<rparr>
        \<and> length ds = depth
        \<and> (\<forall>i<depth. total_loss (ds ! i) = discriminator_loss (dis_losses ! i)
                    \<and> variables_to_train (ds ! i) = discriminator_variables (gan_models ! i))
        \<and> total_loss gop = generator_loss gen_loss_tuple
        \<and> variables_to_train gop = generator_variables (last gan_models)"
  proof (rule exI [of _ ?d], rule exI [of _ ?g], intro conjI)
    show "main_train_ops depth gan_models dis_losses gen_loss_tuple gen_opt dis_opt coll =
      Inr \<lparr> generator_train_op_field = GeneratorTrainOp ?g,
            discriminator_train_op_field = DiscriminatorTrainOps ?d,
            global_step_inc_op = GlobalStepInc \<rparr>"
      by (rule eq)
    show "length ?d = depth" by (rule len)
    show "\<forall>i<depth. total_loss (?d ! i) = discriminator_loss (dis_losses ! i)
                    \<and> variables_to_train (?d ! i) = discriminator_variables (gan_models ! i)"
      by (rule dl)
    show "total_loss ?g = generator_loss gen_loss_tuple" by (rule gl)
    show "variables_to_train ?g = generator_variables (last gan_models)" by (rule gv)
  qed
next
  show "length (get_hooks ts ops) = 2" by (rule length_get_hooks)
next
  show "main_train_step ts ops =
       replicate (discriminator_train_steps ts)
         (SessionRun (discriminator_train_op_of (discriminator_train_op_field ops)))
       @ replicate (generator_train_steps ts)
           (SessionRun [generator_train_op_of (generator_train_op_field ops)])
       @ [global_step_inc_op ops]"
    unfolding main_train_step_def by (rule train_step_get_hooks)
next
  show "main_train_step default_train_steps ops =
       [SessionRun (discriminator_train_op_of (discriminator_train_op_field ops)),
        SessionRun [generator_train_op_of (generator_train_op_field ops)],
        global_step_inc_op ops]"
    unfolding main_train_step_def train_step_get_hooks
    by (simp add: default_train_steps_def)
qed

text \<open>
  Two stages, with the steps (1, 1) and with two discriminator steps: the two
  discriminator operations \<open>d0\<close> and \<open>d1\<close> are always given to the session together,
  where the claimed step runs \<open>d0\<close> and then \<open>d1\<close>, and with two discriminator steps
  \<open>d0\<close> twice and then \<open>d1\<close> twice.
\<close>

theorem training_step_runs_the_stages_together_witness:
  "\<exists>d0 d1 gop ops.
     main_train_ops 2 toy_stack [DiscriminatorLoss 1, DiscriminatorLoss 2]
            (GeneratorLoss 3) ''generator_adam'' ''discriminator_adam'' [] = Inr ops
     \<and> discriminator_train_op_field ops = DiscriminatorTrainOps [d0, d1]
     \<and> generator_train_op_field ops = GeneratorTrainOp gop
     \<and> total_loss d0 = 1 \<and> total_loss d1 = 2
     \<and> variables_to_train d0 = discriminator_variables (toy_stack ! 0)
     \<and> variables_to_train d1 = discriminator_variables (toy_stack ! 1)
     \<and> length (get_hooks default_train_steps ops) = 2
     \<and> main_train_step default_train_steps ops =
         [SessionRun [d0, d1], SessionRun [gop], GlobalStepInc]
     \<and> main_train_step \<lparr> generator_train_steps = 1, discriminator_train_steps = 2 \<rparr> ops =
         [SessionRun [d0, d1], SessionRun [d0, d1], SessionRun [gop], GlobalStepInc]"
proof -
  have h: "(0::nat) < 2 \<and> length toy_stack = 2
      \<and> length [DiscriminatorLoss 1, DiscriminatorLoss 2] = 2"
    by (simp add: toy_stack_length)
  from training_step_runs_the_stages_together [where depth = 2 and gan_models = toy_stack
      and dis_losses = "[DiscriminatorLoss 1, DiscriminatorLoss 2]"
      and gen_loss_tuple = "GeneratorLoss 3" and gen_opt = "''generator_adam''"
      and dis_opt = "''discriminator_adam''" and coll = "[]", THEN conjunct1] h
  obtain ds gop where
    ok: "main_train_ops 2 toy_stack [DiscriminatorLoss 1, DiscriminatorLoss 2]
            (GeneratorLoss 3) ''generator_adam'' ''discriminator_adam'' [] =
          Inr \<lparr> generator_train_op_field = GeneratorTrainOp gop,
                discriminator_train_op_field = DiscriminatorTrainOps ds,
                global_step_inc_op = GlobalStepInc \<rparr>" and
    len: "length ds = 2" and
    each: "\<forall>i<2. total_loss (ds ! i)
                        = discriminator_loss ([DiscriminatorLoss 1, DiscriminatorLoss 2] ! i)
                    \<and> variables_to_train (ds ! i) = discriminator_variables (toy_stack ! i)"
    by blast
  let ?ops = "\<lparr> generator_train_op_field = GeneratorTrainOp gop,
                discriminator_train_op_field = DiscriminatorTrainOps ds,
                global_step_inc_op = GlobalStepInc \<rparr>"
  from len obtain d0 d1 where ab: "ds = [d0, d1]"
    by (cases ds; cases "tl ds") auto
  have e0: "total_loss d0 = 1" "variables_to_train d0 = discriminator_variables (toy_stack ! 0)"
    using each [rule_format, of 0] ab by simp_all
  have e1: "total_loss d1 = 2" "variables_to_train d1 = discriminator_variables (toy_stack ! 1)"
    using each [rule_format, of 1] ab by simp_all
  have n: "length (get_hooks default_train_steps ?ops) = 2"
    using training_step_runs_the_stages_together [where ops = ?ops
        and ts = default_train_steps, THEN conjunct2, THEN conjunct1] .
  have s1: "main_train_step default_train_steps ?ops =
         [SessionRun [d0, d1], SessionRun [gop], GlobalStepInc]"
    using training_step_runs_the_stages_together [where ops = ?ops,
        THEN conjunct2, THEN conjunct2, THEN conjunct2] ab by simp
  have s2: "main_train_step \<lparr> generator_train_steps = 1, discriminator_train_steps = 2 \<rparr> ?ops =
         [SessionRun [d0, d1], SessionRun [d0, d1], SessionRun [gop], GlobalStepInc]"
    using training_step_runs_the_stages_together [where ops = ?ops
        and ts = "\<lparr> generator_train_steps = 1, discriminator_train_steps = 2 \<rparr>",
        THEN conjunct2, THEN conjunct2, THEN conjunct1] ab
    by (simp add: numeral_2_eq_2)
  show ?thesis
  proof (rule exI [of _ d0], rule exI [of _ d1], rule exI [of _ gop], rule exI [of _ ?ops],
         intro conjI)
    show "main_train_ops 2 toy_stack [DiscriminatorLoss 1, DiscriminatorLoss 2]
            (GeneratorLoss 3) ''generator_adam'' ''discriminator_adam'' [] = Inr ?ops"
      by (rule ok)
    show "discriminator_train_op_field ?ops = DiscriminatorTrainOps [d0, d1]"
      using ab by simp
    show "generator_train_op_field ?ops = GeneratorTrainOp gop" by simp
    show "total_loss d0 = 1" by (rule e0)
    show "total_loss d1 = 2" by (rule e1)
    show "variables_to_train d0 = discriminator_variables (toy_stack ! 0)" by (rule e0)
    show "variables_to_train d1 = discriminator_variables (toy_stack ! 1)" by (rule e1)
    show "length (get_hooks default_train_steps ?ops) = 2" by (rule n)
    show "main_train_step default_train_steps ?ops =
         [SessionRun [d0, d1], SessionRun [gop], GlobalStepInc]" by (rule s1)
    show "main_train_step \<lparr> generator_train_steps = 1, discriminator_train_steps = 2 \<rparr> ?ops =
         [SessionRun [d0, d1], SessionRun [d0, d1], SessionRun [gop], GlobalStepInc]"
      by (rule s2)
  qed
qed

section \<open>C5: the colour-consistency loss\<close>

text \<open>
  C5. Claimed: for a stack of depth at least two and every weight \<open>w\<close>, the colour loss
  is the sum over adjacent stages of \<open>w * MSE(means) + 5 * w * MSE(covariances)\<close>, the
  weight entering once per term. \<^verbatim>\<open>color_loss\<close> weighs every term with
  \<^verbatim>\<open>FLAGS.color_loss\<close> and then multiplies the total by \<^verbatim>\<open>FLAGS.color_loss\<close> again
  (lemma \<open>color_loss_value\<close>: the result is \<open>w\<close> times the stated sum). With the default
  weight 50, two stages, a squared error of 1 between the means and of 0 between the
  covariances, the function returns 2500 where the stated sum is 50.
\<close>

theorem color_loss_weighs_twice:
  "color_loss toy_loss_fns 50 2 toy_stack = Inr 2500
   \<and> color_loss_spec toy_loss_fns 50 toy_stack = 50"
  by (simp add: color_loss_def color_loss_spec_def Let_def toy_loss_fns_def toy_model_def toy_stack_def
        toy_generator_def train_final_size_def)

section \<open>C6: the shape check\<close>



section \<open>C7: prediction mode\<close>

text \<open>
  C7. In prediction mode, labels that are not \<^verbatim>\<open>None\<close> make the model function raise
  \<^verbatim>\<open>ValueError\<close>; this part holds. With labels \<^verbatim>\<open>None\<close> the build is meant to return
  the final stage's generator-only model, but for every stack depth of at least one it
  raises \<^verbatim>\<open>TypeError\<close> in the first iteration: the closure returned by
  \<^verbatim>\<open>_get_generator_input_for_stage\<close> is unpacked instead of being called.
\<close>

theorem prediction_build_raises:
  "gan_model_fn sb aug (Suc n) bs nd emb None PREDICT gf0 df0 abn g = Inl TypeError
   \<and> gan_model_fn sb aug depth bs nd emb (Some l) PREDICT gf0 df0 abn g = Inl ValueError"
  by (simp add: gan_model_fn_def make_prediction_gan_model_Suc)

section \<open>C8: configuration errors of the discriminator loss\<close>

text \<open>
  C8. Claimed: \<^verbatim>\<open>dis_loss\<close> fails when a mutual-information or auxiliary-classifier
  weight is supplied for a model that is not an \<^verbatim>\<open>InfoGANModel\<close> or \<^verbatim>\<open>ACGANModel\<close>,
  fails when a supplied weight is negative, and returns a loss when no such weight is
  supplied. The failure for an unsupported model is tied to \<^verbatim>\<open>_use_aux_loss\<close>, which is
  true only for a weight greater than zero: a mutual-information weight \<open>w > 0\<close> with
  a model that is not an \<^verbatim>\<open>InfoGANModel\<close>, or an auxiliary-classifier weight \<open>w > 0\<close>
  (generator or discriminator) with a model that is not an \<^verbatim>\<open>ACGANModel\<close>, raises
  \<^verbatim>\<open>ValueError\<close>; any of the four weights being a negative number raises
  \<^verbatim>\<open>ValueError\<close>; with the three auxiliary weights \<^verbatim>\<open>None\<close> and a valid
  gradient-penalty weight the function returns the loss; and the three weights being zero
  gives the same result as their being \<^verbatim>\<open>None\<close>.
\<close>

theorem dis_loss_configuration_errors:
  "(0 < w \<and> cls \<noteq> InfoGANModel \<longrightarrow>
      dis_loss fns cls m gpw (Some w) acgw acdw = Inl ValueError)
   \<and> (0 < w \<and> cls \<noteq> ACGANModel \<longrightarrow>
      dis_loss fns cls m gpw miw (Some w) acdw = Inl ValueError
      \<and> dis_loss fns cls m gpw miw acgw (Some w) = Inl ValueError)
   \<and> (w < 0 \<longrightarrow>
      dis_loss fns cls m (Some w) miw acgw acdw = Inl ValueError
      \<and> dis_loss fns cls m gpw (Some w) acgw acdw = Inl ValueError
      \<and> dis_loss fns cls m gpw miw (Some w) acdw = Inl ValueError
      \<and> dis_loss fns cls m gpw miw acgw (Some w) = Inl ValueError)
   \<and> (validate_aux_loss_weight gpw = Inr gpw \<longrightarrow>
      dis_loss fns cls m gpw None None None =
        Inr (DiscriminatorLoss
               (add_weighted gpw (wasserstein_gradient_penalty fns m)
                  (discriminator_loss_fn fns (tensor_pool_adjusted_model fns m))
                + get_regularization_loss fns (discriminator_scope m)))
      \<and> dis_loss fns cls m gpw (Some 0) (Some 0) (Some 0) = dis_loss fns cls m gpw None None None)"
proof (intro conjI impI)
  assume "0 < w \<and> cls \<noteq> InfoGANModel"
  then show "dis_loss fns cls m gpw (Some w) acgw acdw = Inl ValueError"
    using dis_loss_cases [of fns cls m gpw "Some w" acgw acdw] by auto
next
  assume h: "0 < w \<and> cls \<noteq> ACGANModel"
  then show "dis_loss fns cls m gpw miw (Some w) acdw = Inl ValueError"
    using dis_loss_cases [of fns cls m gpw miw "Some w" acdw] by auto
  from h show "dis_loss fns cls m gpw miw acgw (Some w) = Inl ValueError"
    using dis_loss_cases [of fns cls m gpw miw acgw "Some w"] by auto
next
  assume h: "w < 0"
  then show "dis_loss fns cls m (Some w) miw acgw acdw = Inl ValueError"
    using dis_loss_cases [of fns cls m "Some w" miw acgw acdw] by auto
  from h show "dis_loss fns cls m gpw (Some w) acgw acdw = Inl ValueError"
    using dis_loss_cases [of fns cls m gpw "Some w" acgw acdw] by auto
  from h show "dis_loss fns cls m gpw miw (Some w) acdw = Inl ValueError"
    using dis_loss_cases [of fns cls m gpw miw "Some w" acdw] by auto
  from h show "dis_loss fns cls m gpw miw acgw (Some w) = Inl ValueError"
    using dis_loss_cases [of fns cls m gpw miw acgw "Some w"] by auto
next
  assume h: "validate_aux_loss_weight gpw = Inr gpw"
  then show "dis_loss fns cls m gpw None None None =
        Inr (DiscriminatorLoss
               (add_weighted gpw (wasserstein_gradient_penalty fns m)
                  (discriminator_loss_fn fns (tensor_pool_adjusted_model fns m))
                + get_regularization_loss fns (discriminator_scope m)))"
    by (simp add: dis_loss_def Let_def add_weighted_def)
  from h show "dis_loss fns cls m gpw (Some 0) (Some 0) (Some 0) = dis_loss fns cls m gpw None None None"
    by (simp add: dis_loss_def Let_def add_weighted_def)
qed

theorem dis_loss_configuration_errors_witness:
  "dis_loss toy_loss_fns StackGANModel (toy_model 0) (Some 1) (Some 2) None None = Inl ValueError
   \<and> dis_loss toy_loss_fns StackGANModel (toy_model 0) (Some 1) None (Some 2) None = Inl ValueError
   \<and> dis_loss toy_loss_fns StackGANModel (toy_model 0) (Some 1) None None (Some 2) = Inl ValueError
   \<and> dis_loss toy_loss_fns StackGANModel (toy_model 0) (Some (- 1)) None None None = Inl ValueError
   \<and> dis_loss toy_loss_fns InfoGANModel (toy_model 0) None (Some (- 1)) None None = Inl ValueError
   \<and> dis_loss toy_loss_fns StackGANModel (toy_model 0) (Some 1) None None None
       = Inr (DiscriminatorLoss 2)
   \<and> dis_loss toy_loss_fns StackGANModel (toy_model 0) (Some 1) (Some 0) (Some 0) (Some 0)
       = Inr (DiscriminatorLoss 2)"
proof -
  note t = dis_loss_configuration_errors [where fns = toy_loss_fns and m = "toy_model 0"]
  have v: "validate_aux_loss_weight (Some 1) = Inr (Some 1)" by simp
  have a: "dis_loss toy_loss_fns StackGANModel (toy_model 0) (Some 1) (Some 2) None None = Inl ValueError"
    using t [where w = 2 and cls = StackGANModel, THEN conjunct1] by simp
  have b: "dis_loss toy_loss_fns StackGANModel (toy_model 0) (Some 1) None (Some 2) None = Inl ValueError"
    "dis_loss toy_loss_fns StackGANModel (toy_model 0) (Some 1) None None (Some 2) = Inl ValueError"
    using t [where w = 2 and cls = StackGANModel, THEN conjunct2, THEN conjunct1] by simp_all
  have c: "dis_loss toy_loss_fns StackGANModel (toy_model 0) (Some (- 1)) None None None = Inl ValueError"
    "dis_loss toy_loss_fns InfoGANModel (toy_model 0) None (Some (- 1)) None None = Inl ValueError"
    using t [where w = "- 1", THEN conjunct2, THEN conjunct2, THEN conjunct1] by simp_all
  have d: "dis_loss toy_loss_fns StackGANModel (toy_model 0) (Some 1) None None None
       = Inr (DiscriminatorLoss 2)"
    "dis_loss toy_loss_fns StackGANModel (toy_model 0) (Some 1) (Some 0) (Some 0) (Some 0)
       = Inr (DiscriminatorLoss 2)"
    using t [where gpw = "Some 1" and cls = StackGANModel, THEN conjunct2, THEN conjunct2, THEN conjunct2] v
    by (simp_all add: add_weighted_def toy_loss_fns_def)
  from a b c d show ?thesis by simp
qed

text \<open>
  A mutual-information weight of zero, supplied for a \<^verbatim>\<open>StackGANModel\<close>, is accepted.
\<close>

theorem zero_weight_accepted_counterexample:
  "dis_loss toy_loss_fns StackGANModel (toy_model 0) None (Some 0) None None
     = Inr (DiscriminatorLoss 1)"
  by (simp add: dis_loss_def Let_def add_weighted_def toy_loss_fns_def)

section \<open>C9: the resolution passed to the generator\<close>



section \<open>C10: the unbound name in the generator loss\<close>

text \<open>
  C10. Claimed: \<^verbatim>\<open>gen_loss\<close> called with a mutual-information weight that is not
  \<^verbatim>\<open>None\<close>, or with a true auxiliary-classifier weight, always raises the unbound-name
  error, and with both weights \<^verbatim>\<open>None\<close> these branches are not reached and it does
  not crash on them.
  The two weights are validated first, and the name \<^verbatim>\<open>model\<close> is evaluated only for a
  weight in use. So: a mutual-information weight \<open>w > 0\<close> (the other weight passing
  validation) raises \<^verbatim>\<open>NameError\<close>, and so does an auxiliary-classifier weight
  \<open>w > 0\<close>; a negative weight raises the documented \<^verbatim>\<open>ValueError\<close>; with both weights
  \<^verbatim>\<open>None\<close> or zero the function raises neither of the two errors; and a weight of zero
  gives the call the result it has with \<^verbatim>\<open>None\<close>.
\<close>

theorem gen_loss_unbound_name:
  "(0 < w \<and> validate_aux_loss_weight acgw = Inr acgw \<longrightarrow>
      gen_loss fns c depth models (Some w) acgw = Inl NameError)
   \<and> (0 < w \<and> validate_aux_loss_weight miw = Inr miw \<longrightarrow>
      gen_loss fns c depth models miw (Some w) = Inl NameError)
   \<and> (w < 0 \<longrightarrow>
      gen_loss fns c depth models (Some w) acgw = Inl ValueError
      \<and> gen_loss fns c depth models miw (Some w) = Inl ValueError)
   \<and> (miw \<in> {None, Some 0} \<and> acgw \<in> {None, Some 0} \<longrightarrow>
      gen_loss fns c depth models miw acgw \<noteq> Inl NameError
      \<and> gen_loss fns c depth models miw acgw \<noteq> Inl ValueError)
   \<and> (miw \<in> {None, Some 0} \<and> acgw \<in> {None, Some 0} \<longrightarrow>
      gen_loss fns c depth models miw acgw = gen_loss fns c depth models None None)"
proof (intro conjI impI)
  assume "0 < w \<and> validate_aux_loss_weight acgw = Inr acgw"
  then show "gen_loss fns c depth models (Some w) acgw = Inl NameError"
    by (simp add: gen_loss_def model_name_lookup_def)
next
  assume h: "0 < w \<and> validate_aux_loss_weight miw = Inr miw"
  show "gen_loss fns c depth models miw (Some w) = Inl NameError"
  proof (cases "use_aux_loss miw")
    case True
    then show ?thesis using h by (simp add: gen_loss_def model_name_lookup_def)
  next
    case False
    then show ?thesis using h by (simp add: gen_loss_def model_name_lookup_def truthy_def)
  qed
next
  assume h: "w < 0"
  then show "gen_loss fns c depth models (Some w) acgw = Inl ValueError"
    by (simp add: gen_loss_def)
  from h show "gen_loss fns c depth models miw (Some w) = Inl ValueError"
    using validate_cases [of miw] by (auto simp: gen_loss_def)
next
  assume h: "miw \<in> {None, Some 0} \<and> acgw \<in> {None, Some 0}"
  then have "gen_loss fns c depth models miw acgw \<noteq> Inl NameError
      \<and> gen_loss fns c depth models miw acgw \<noteq> Inl ValueError"
    by (intro gen_loss_unused_no_NameError) simp_all
  then show "gen_loss fns c depth models miw acgw \<noteq> Inl NameError"
    "gen_loss fns c depth models miw acgw \<noteq> Inl ValueError" by simp_all
next
  assume h: "miw \<in> {None, Some 0} \<and> acgw \<in> {None, Some 0}"
  then show "gen_loss fns c depth models miw acgw = gen_loss fns c depth models None None"
    by (intro gen_loss_zero_as_None) simp_all
qed

theorem gen_loss_unbound_name_witness:
  "gen_loss toy_loss_fns 50 2 toy_stack (Some 1) None = Inl NameError
   \<and> gen_loss toy_loss_fns 50 2 toy_stack None (Some 1) = Inl NameError
   \<and> gen_loss toy_loss_fns 50 2 toy_stack (Some (- 1)) None = Inl ValueError
   \<and> gen_loss toy_loss_fns 50 2 toy_stack None (Some (- 1)) = Inl ValueError
   \<and> gen_loss toy_loss_fns 50 2 toy_stack None None \<noteq> Inl NameError
   \<and> gen_loss toy_loss_fns 50 2 toy_stack None None \<noteq> Inl ValueError
   \<and> gen_loss toy_loss_fns 50 2 toy_stack (Some 0) (Some 0)
       = gen_loss toy_loss_fns 50 2 toy_stack None None"
proof -
  note t = gen_loss_unbound_name [where fns = toy_loss_fns and c = 50 and depth = 2
      and models = toy_stack]
  have a: "gen_loss toy_loss_fns 50 2 toy_stack (Some 1) None = Inl NameError"
    using t [where w = 1 and acgw = None, THEN conjunct1] by simp
  have b: "gen_loss toy_loss_fns 50 2 toy_stack None (Some 1) = Inl NameError"
    using t [where w = 1 and miw = None, THEN conjunct2, THEN conjunct1] by simp
  have c: "gen_loss toy_loss_fns 50 2 toy_stack (Some (- 1)) None = Inl ValueError"
    "gen_loss toy_loss_fns 50 2 toy_stack None (Some (- 1)) = Inl ValueError"
    using t [where w = "- 1" and miw = None and acgw = None,
        THEN conjunct2, THEN conjunct2, THEN conjunct1] by simp_all
  have d: "gen_loss toy_loss_fns 50 2 toy_stack None None \<noteq> Inl NameError"
    "gen_loss toy_loss_fns 50 2 toy_stack None None \<noteq> Inl ValueError"
    using t [where miw = None and acgw = None,
        THEN conjunct2, THEN conjunct2, THEN conjunct2, THEN conjunct1] by simp_all
  have e: "gen_loss toy_loss_fns 50 2 toy_stack (Some 0) (Some 0)
       = gen_loss toy_loss_fns 50 2 toy_stack None None"
    using t [where miw = "Some 0" and acgw = "Some 0",
        THEN conjunct2, THEN conjunct2, THEN conjunct2, THEN conjunct2] by simp
  from a b c d e show ?thesis by simp
qed

text \<open>
  A mutual-information weight of zero is not \<^verbatim>\<open>None\<close>, and the call raises no
  \<^verbatim>\<open>NameError\<close>: in a graph without regularization losses it returns a loss. A
  negative weight is not \<^verbatim>\<open>None\<close> and is true, and the call raises the documented
  \<^verbatim>\<open>ValueError\<close>.
\<close>

theorem zero_or_negative_weight_counterexample:
  "gen_loss toy_loss_fns 50 2 toy_stack (Some 0) None = Inr (GeneratorLoss 2502)
   \<and> gen_loss toy_loss_fns 50 2 toy_stack (Some (- 1)) None = Inl ValueError
   \<and> gen_loss toy_loss_fns 50 2 toy_stack None (Some (- 1)) = Inl ValueError"
proof -
  have "gen_loss toy_loss_fns 50 2 toy_stack (Some 0) None =
     (if regularization_losses_collected toy_loss_fns then Inl TypeError
      else Inr (GeneratorLoss
               ((if (50::real) > 0 then 50 * color_loss_spec toy_loss_fns 50 toy_stack else 0)
                + (\<Sum>m\<leftarrow>toy_stack. generator_loss_fn toy_loss_fns m) + 0)))"
    by (rule gen_loss_value) (simp_all add: toy_stack_length)
  then have "gen_loss toy_loss_fns 50 2 toy_stack (Some 0) None = Inr (GeneratorLoss 2502)"
    unfolding toy_no_regularization_losses toy_color_loss_spec toy_generator_losses by simp
  moreover have "gen_loss toy_loss_fns 50 2 toy_stack (Some (- 1)) None = Inl ValueError"
    "gen_loss toy_loss_fns 50 2 toy_stack None (Some (- 1)) = Inl ValueError"
    by (simp_all add: gen_loss_def)
  ultimately show ?thesis by simp
qed

end
